theory Spec2Isabelle
  imports Complex_Main "HOL-Library.Sublist" "HOL-Library.AList"
    "HOL-Library.Char_ord" "HOL-Library.List_Lexorder"
begin

section \<open>Errors and the state-and-exception monad\<close>

text \<open>
  The pipeline of \<^verbatim>\<open>hw3/homework.py\<close> is modelled function by function. A Python
  exception is a value of \<open>error\<close>; a function that may raise returns \<open>error + 'a\<close>.
  A function with effects (log lines, file reads, artifact dumps, in-place mutation of an
  argument) is a state transformer that may raise: it takes the state before the call and
  returns the outcome together with the state after it, which is kept when it raises.
\<close>

datatype error =
    ValueError | KeyError | AttributeError | TypeError | OverflowError | IOError | NotFittedError

type_synonym ('s, 'a) sx = "'s \<Rightarrow> (error + 'a) \<times> 's"

definition returnS :: "'a \<Rightarrow> ('s, 'a) sx" where
  "returnS x = (\<lambda>s. (Inr x, s))"

definition bindS :: "('s, 'a) sx \<Rightarrow> ('a \<Rightarrow> ('s, 'b) sx) \<Rightarrow> ('s, 'b) sx" where
  "bindS m f = (\<lambda>s. case m s of (Inl e, s') \<Rightarrow> (Inl e, s') | (Inr x, s') \<Rightarrow> f x s')"

definition liftE :: "error + 'a \<Rightarrow> ('s, 'a) sx" where
  "liftE r = (\<lambda>s. (r, s))"

definition bindE :: "error + 'a \<Rightarrow> ('a \<Rightarrow> error + 'b) \<Rightarrow> error + 'b" where
  "bindE r f = (case r of Inl e \<Rightarrow> Inl e | Inr x \<Rightarrow> f x)"

fun mapE :: "('a \<Rightarrow> error + 'b) \<Rightarrow> 'a list \<Rightarrow> error + 'b list" where
  "mapE f [] = Inr []"
| "mapE f (x # xs) = bindE (f x) (\<lambda>y. bindE (mapE f xs) (\<lambda>ys. Inr (y # ys)))"

section \<open>Python integers and strings\<close>

definition is_digit :: "char \<Rightarrow> bool" where
  "is_digit c = (c \<in> set ''0123456789'')"

definition digit_val :: "char \<Rightarrow> int" where
  "digit_val c = int (of_char c) - 48"

definition dec_val :: "string \<Rightarrow> int" where
  "dec_val s = foldl (\<lambda>a c. 10 * a + digit_val c) 0 s"

text \<open>\<^verbatim>\<open>str.isspace\<close> on the code points below 256.\<close>

definition py_isspace :: "char \<Rightarrow> bool" where
  "py_isspace c = ((of_char c :: nat) \<in> set [9, 10, 11, 12, 13, 28, 29, 30, 31, 32, 133, 160])"

definition strip :: "string \<Rightarrow> string" where
  "strip s = rev (dropWhile py_isspace (rev (dropWhile py_isspace s)))"

text \<open>The digit part of an integer literal: digits, single underscores between them.\<close>

fun digits_us :: "string \<Rightarrow> bool" where
  "digits_us [] = False"
| "digits_us [c] = is_digit c"
| "digits_us (c # d # r) =
     (is_digit c \<and> (if d = CHR ''_'' then digits_us r else digits_us (d # r)))"

text \<open>\<^verbatim>\<open>int(s)\<close> for a string, base 10: \<open>None\<close> is Python's \<^verbatim>\<open>ValueError\<close>.\<close>

definition py_int :: "string \<Rightarrow> int option" where
  "py_int s =
     (let t = strip s;
          neg = (case t of c # _ \<Rightarrow> c = CHR ''-'' | [] \<Rightarrow> False);
          body = (case t of c # b \<Rightarrow> if c = CHR ''-'' \<or> c = CHR ''+'' then b else t | [] \<Rightarrow> t)
      in if digits_us body
         then Some ((if neg then -1 else 1) * dec_val (filter (\<lambda>c. c \<noteq> CHR ''_'') body))
         else None)"

definition digit_char :: "nat \<Rightarrow> char" where
  "digit_char n = ''0123456789'' ! n"

fun str_nat :: "nat \<Rightarrow> string" where
  "str_nat n = (if n < 10 then [digit_char n] else str_nat (n div 10) @ [digit_char (n mod 10)])"

declare str_nat.simps [simp del]

text \<open>\<^verbatim>\<open>str(i)\<close> for an integer.\<close>

definition str_int :: "int \<Rightarrow> string" where
  "str_int i = (if i < 0 then CHR ''-'' # str_nat (nat (- i)) else str_nat (nat i))"

text \<open>The format specification \<^verbatim>\<open>02d\<close>: zero padding to width two, after the sign.\<close>

definition fmt_02d :: "int \<Rightarrow> string" where
  "fmt_02d i =
     (if i < 0 then str_int i
      else replicate (2 - length (str_int i)) (CHR ''0'') @ str_int i)"

section \<open>Dates\<close>

record date =
  year :: int
  month :: int
  day :: int

definition isleap :: "int \<Rightarrow> bool" where
  "isleap y = (y mod 4 = 0 \<and> (y mod 100 \<noteq> 0 \<or> y mod 400 = 0))"

definition days_in_month :: "int \<Rightarrow> int \<Rightarrow> int" where
  "days_in_month y m =
     (if m = 2 then (if isleap y then 29 else 28)
      else if m \<in> {4, 6, 9, 11} then 30 else 31)"

text \<open>
  The constructor \<^verbatim>\<open>datetime.date(y, m, d)\<close>, also behind \<^verbatim>\<open>date.replace\<close>: years
  run from \<^verbatim>\<open>MINYEAR = 1\<close> to \<^verbatim>\<open>MAXYEAR = 9999\<close>.
\<close>

definition mk_date :: "int \<Rightarrow> int \<Rightarrow> int \<Rightarrow> error + date" where
  "mk_date y m d =
     (if 1 \<le> y \<and> y \<le> 9999 \<and> 1 \<le> m \<and> m \<le> 12 \<and> 1 \<le> d \<and> d \<le> days_in_month y m
      then Inr \<lparr>year = y, month = m, day = d\<rparr> else Inl ValueError)"

subsection \<open>\<^verbatim>\<open>strptime(date, "%Y-%m-%d")\<close>\<close>

text \<open>
  The format compiles to the regular expression
  \<^verbatim>\<open>(?P<Y>\d\d\d\d)-(?P<m>1[0-2]|0[1-9]|[1-9])-(?P<d>3[0-1]|[1-2]\d|0[1-9]|[1-9]| [1-9])\<close>,
  matched at the start of the string; text left over after the match is an error, and so
  is a day the month does not have. An alternative is a sequence of character classes;
  alternatives are tried in order, and a later one is tried when the rest of the pattern
  fails after an earlier one (backtracking).
\<close>

type_synonym alt = "string list"

fun match_classes :: "alt \<Rightarrow> string \<Rightarrow> (string \<times> string) option" where
  "match_classes [] s = Some ([], s)"
| "match_classes (c # cs) [] = None"
| "match_classes (c # cs) (x # xs) =
     (if x \<in> set c
      then (case match_classes cs xs of None \<Rightarrow> None | Some (t, r) \<Rightarrow> Some (x # t, r))
      else None)"

fun match_alts :: "alt list \<Rightarrow> (string \<Rightarrow> 'a option) \<Rightarrow> string \<Rightarrow> (string \<times> 'a) option" where
  "match_alts [] k s = None"
| "match_alts (a # as) k s =
     (case match_classes a s of
        None \<Rightarrow> match_alts as k s
      | Some (t, r) \<Rightarrow> (case k r of None \<Rightarrow> match_alts as k s | Some v \<Rightarrow> Some (t, v)))"

definition year_re :: "alt list" where
  "year_re = [[''0123456789'', ''0123456789'', ''0123456789'', ''0123456789'']]"

definition month_re :: "alt list" where
  "month_re = [[''1'', ''012''], [''0'', ''123456789''], [''123456789'']]"

definition day_re :: "alt list" where
  "day_re = [[''3'', ''01''], [''12'', ''0123456789''], [''0'', ''123456789''],
             [''123456789''], ['' '', ''123456789'']]"

definition lit :: "char \<Rightarrow> (string \<Rightarrow> 'a option) \<Rightarrow> string \<Rightarrow> 'a option" where
  "lit c k s = (case s of [] \<Rightarrow> None | x # r \<Rightarrow> if x = c then k r else None)"

definition match_format :: "string \<Rightarrow> (string \<times> string \<times> string \<times> string) option" where
  "match_format s =
     match_alts year_re (lit (CHR ''-'') (match_alts month_re (lit (CHR ''-'')
       (match_alts day_re Some)))) s"

definition strptime :: "string \<Rightarrow> error + date" where
  "strptime s =
     (case match_format s of
        None \<Rightarrow> Inl ValueError
      | Some (ys, ms, ds, rest) \<Rightarrow>
          if rest \<noteq> [] then Inl ValueError
          else (case (py_int ys, py_int ms, py_int ds) of
                  (Some y, Some m, Some d) \<Rightarrow> mk_date y m d
                | _ \<Rightarrow> Inl ValueError))"

subsection \<open>\<^verbatim>\<open>date + relativedelta(months=k)\<close>\<close>

text \<open>
  dateutil moves the month by \<open>k\<close> (here \<open>-2\<close> and \<open>-1\<close>), carries into the year, clips
  the day to the length of the new month and rebuilds the date with \<^verbatim>\<open>date.replace\<close>,
  which raises outside the years 1 to 9999.
\<close>

definition add_months :: "date \<Rightarrow> int \<Rightarrow> error + date" where
  "add_months d k =
     (let m0 = month d + k;
          y = (if m0 > 12 then year d + 1 else if m0 < 1 then year d - 1 else year d);
          m = (if m0 > 12 then m0 - 12 else if m0 < 1 then m0 + 12 else m0)
      in mk_date y m (min (days_in_month y m) (day d)))"

section \<open>Path Resolver\<close>

definition dataset_path :: "int \<Rightarrow> int \<Rightarrow> string" where
  "dataset_path y m = ''./data/fhv_tripdata_'' @ str_int y @ ''-'' @ fmt_02d m @ ''.parquet''"

definition get_paths :: "string \<Rightarrow> error + (string \<times> string)" where
  "get_paths date_str =
     bindE (strptime date_str) (\<lambda>date_object.
     bindE (add_months date_object (-2)) (\<lambda>train_date.
     bindE (add_months date_object (-1)) (\<lambda>val_date.
       Inr (dataset_path (year train_date) (month train_date),
            dataset_path (year val_date) (month val_date)))))"

section \<open>Reference dates as the specification words them\<close>

text \<open>
  A well-formed reference date has the shape \<^verbatim>\<open>YYYY-MM-DD\<close>, ten characters, and names a
  day of the calendar from year 1 on.
\<close>

definition date_year :: "string \<Rightarrow> int" where
  "date_year s = dec_val (take 4 s)"

definition date_month :: "string \<Rightarrow> int" where
  "date_month s = dec_val (take 2 (drop 5 s))"

definition date_day :: "string \<Rightarrow> int" where
  "date_day s = dec_val (drop 8 s)"

definition well_formed_date :: "string \<Rightarrow> bool" where
  "well_formed_date s =
     (length s = 10 \<and> list_all is_digit (take 4 s) \<and> s ! 4 = CHR ''-'' \<and>
      list_all is_digit (take 2 (drop 5 s)) \<and> s ! 7 = CHR ''-'' \<and>
      list_all is_digit (drop 8 s) \<and>
      1 \<le> date_year s \<and> 1 \<le> date_month s \<and> date_month s \<le> 12 \<and>
      1 \<le> date_day s \<and> date_day s \<le> days_in_month (date_year s) (date_month s))"

text \<open>The year and month that lie \<open>k\<close> calendar months before the month of the date.\<close>

definition months_before :: "string \<Rightarrow> int \<Rightarrow> int \<times> int" where
  "months_before s k =
     (let i = 12 * date_year s + (date_month s - 1) - k in (i div 12, i mod 12 + 1))"

section \<open>Tables\<close>

text \<open>
  A pandas DataFrame is a row index and an ordered list of named, typed columns. Timestamps
  and time differences are counts of nanoseconds in 64 bits, with \<open>None\<close> for \<^verbatim>\<open>NaT\<close>, the
  value \<open>- 2 ^ 63\<close> being taken by that sentinel; an integer column holds 64-bit integers;
  both are written as integers of that range, and an operation that can leave the range
  says what happens there. A float column holds rationals in place of the finite
  binary floating-point numbers, with \<open>None\<close> for \<^verbatim>\<open>NaN\<close>; the infinities are left out. All columns of a table read from a file have the
  length of the index.
\<close>

definition in_int64 :: "int \<Rightarrow> bool" where
  "in_int64 i = (- (2 ^ 63) \<le> i \<and> i < 2 ^ 63)"

text \<open>Addition and subtraction of 64-bit integers in numpy wrap around.\<close>

definition wrap64 :: "int \<Rightarrow> int" where
  "wrap64 i = (i + 2 ^ 63) mod 2 ^ 64 - 2 ^ 63"

datatype column =
    DatetimeCol "int option list"
  | TimedeltaCol "int option list"
  | FloatCol "rat option list"
  | IntCol "int list"
  | StrCol "string list"

record dataframe =
  index :: "int list"
  columns :: "(string \<times> column) list"

text \<open>Attribute access \<^verbatim>\<open>df.name\<close>, item access \<^verbatim>\<open>df[name]\<close> and \<^verbatim>\<open>df[names]\<close>.\<close>

definition getattr :: "dataframe \<Rightarrow> string \<Rightarrow> error + column" where
  "getattr df name = (case map_of (columns df) name of None \<Rightarrow> Inl AttributeError | Some c \<Rightarrow> Inr c)"

definition getitem :: "dataframe \<Rightarrow> string \<Rightarrow> error + column" where
  "getitem df name = (case map_of (columns df) name of None \<Rightarrow> Inl KeyError | Some c \<Rightarrow> Inr c)"

definition getitems :: "dataframe \<Rightarrow> string list \<Rightarrow> error + column list" where
  "getitems df names = mapE (getitem df) names"

text \<open>
  The assignment \<^verbatim>\<open>df[name] = col\<close> replaces the column of that name where it stands, or
  appends a new column; \<^verbatim>\<open>df[names] = cols\<close> does so name by name, for names that are
  distinct (line 50 raises on a repeated name before it sets a column).
\<close>

definition setitem :: "dataframe \<Rightarrow> string \<Rightarrow> column \<Rightarrow> dataframe" where
  "setitem df name c = df\<lparr>columns := AList.update name c (columns df)\<rparr>"

definition setitems :: "dataframe \<Rightarrow> string list \<Rightarrow> column list \<Rightarrow> dataframe" where
  "setitems df names cs = fold (\<lambda>(name, c) d. setitem d name c) (zip names cs) df"

subsection \<open>Column arithmetic\<close>

definition sub_opt :: "int option \<Rightarrow> int option \<Rightarrow> int option" where
  "sub_opt x y = (case (x, y) of (Some a, Some b) \<Rightarrow> Some (a - b) | _ \<Rightarrow> None)"

definition sub_float :: "rat option \<Rightarrow> rat option \<Rightarrow> rat option" where
  "sub_float x y = (case (x, y) of (Some a, Some b) \<Rightarrow> Some (a - b) | _ \<Rightarrow> None)"

definition as_float :: "int list \<Rightarrow> rat option list" where
  "as_float xs = map (\<lambda>i. Some (of_int i)) xs"

text \<open>
  A difference of times must itself be a count of nanoseconds in 64 bits: pandas raises
  \<^verbatim>\<open>OverflowError\<close> when a difference leaves the 64-bit range, and the one value of the
  range that is the sentinel is rejected here with it.
\<close>

definition is_time_value :: "int option \<Rightarrow> bool" where
  "is_time_value x = (case x of None \<Rightarrow> True | Some d \<Rightarrow> - (2 ^ 63) < d \<and> d < 2 ^ 63)"

definition checked :: "int option list \<Rightarrow> error + int option list" where
  "checked ds = (if list_all is_time_value ds then Inr ds else Inl OverflowError)"

text \<open>
  The difference of two columns of one table. Two timestamp columns give a time difference;
  numbers subtract as numbers; the other combinations, as far as pandas rejects them, raise.
\<close>

fun col_sub :: "column \<Rightarrow> column \<Rightarrow> error + column" where
  "col_sub (DatetimeCol a) (DatetimeCol b) =
     bindE (checked (map2 sub_opt a b)) (\<lambda>ds. Inr (TimedeltaCol ds))"
| "col_sub (TimedeltaCol a) (TimedeltaCol b) =
     bindE (checked (map2 sub_opt a b)) (\<lambda>ds. Inr (TimedeltaCol ds))"
| "col_sub (DatetimeCol a) (TimedeltaCol b) =
     bindE (checked (map2 sub_opt a b)) (\<lambda>ds. Inr (DatetimeCol ds))"
| "col_sub (IntCol a) (IntCol b) = Inr (IntCol (map2 (\<lambda>x y. wrap64 (x - y)) a b))"
| "col_sub (FloatCol a) (FloatCol b) = Inr (FloatCol (map2 sub_float a b))"
| "col_sub (FloatCol a) (IntCol b) = Inr (FloatCol (map2 sub_float a (as_float b)))"
| "col_sub (IntCol a) (FloatCol b) = Inr (FloatCol (map2 sub_float (as_float a) b))"
| "col_sub _ _ = Inl TypeError"

text \<open>\<^verbatim>\<open>col.dt.total_seconds()\<close>: only a time-difference column has it.\<close>

fun dt_total_seconds :: "column \<Rightarrow> error + rat option list" where
  "dt_total_seconds (TimedeltaCol a) = Inr (map (map_option (\<lambda>ns. of_int ns / 1000000000)) a)"
| "dt_total_seconds _ = Inl AttributeError"

definition div_scalar :: "rat option list \<Rightarrow> rat \<Rightarrow> rat option list" where
  "div_scalar xs k = map (map_option (\<lambda>x. x / k)) xs"

text \<open>Comparisons of a column with a number: a missing value compares false.\<close>

fun col_ge :: "column \<Rightarrow> rat \<Rightarrow> error + bool list" where
  "col_ge (FloatCol xs) k = Inr (map (\<lambda>x. case x of None \<Rightarrow> False | Some r \<Rightarrow> k \<le> r) xs)"
| "col_ge (IntCol xs) k = Inr (map (\<lambda>i. k \<le> of_int i) xs)"
| "col_ge _ k = Inl TypeError"

fun col_le :: "column \<Rightarrow> rat \<Rightarrow> error + bool list" where
  "col_le (FloatCol xs) k = Inr (map (\<lambda>x. case x of None \<Rightarrow> False | Some r \<Rightarrow> r \<le> k) xs)"
| "col_le (IntCol xs) k = Inr (map (\<lambda>i. of_int i \<le> k) xs)"
| "col_le _ k = Inl TypeError"

definition mask_and :: "bool list \<Rightarrow> bool list \<Rightarrow> bool list" where
  "mask_and a b = map2 (\<and>) a b"

text \<open>Boolean indexing \<^verbatim>\<open>df[mask]\<close>, which builds a new table.\<close>

definition pick :: "bool list \<Rightarrow> 'a list \<Rightarrow> 'a list" where
  "pick keep xs = map snd (filter fst (zip keep xs))"

fun col_pick :: "bool list \<Rightarrow> column \<Rightarrow> column" where
  "col_pick keep (DatetimeCol xs) = DatetimeCol (pick keep xs)"
| "col_pick keep (TimedeltaCol xs) = TimedeltaCol (pick keep xs)"
| "col_pick keep (FloatCol xs) = FloatCol (pick keep xs)"
| "col_pick keep (IntCol xs) = IntCol (pick keep xs)"
| "col_pick keep (StrCol xs) = StrCol (pick keep xs)"

definition select_rows :: "dataframe \<Rightarrow> bool list \<Rightarrow> dataframe" where
  "select_rows df keep =
     \<lparr>index = pick keep (index df),
      columns = map (\<lambda>(name, c). (name, col_pick keep c)) (columns df)\<rparr>"

text \<open>\<^verbatim>\<open>col.mean()\<close> skips missing values; the mean of nothing is \<^verbatim>\<open>NaN\<close>.\<close>

definition mean_of :: "rat list \<Rightarrow> rat option" where
  "mean_of vs = (if vs = [] then None else Some (sum_list vs / of_nat (length vs)))"

fun col_mean :: "column \<Rightarrow> error + rat option" where
  "col_mean (FloatCol xs) = Inr (mean_of (concat (map (\<lambda>x. case x of None \<Rightarrow> [] | Some r \<Rightarrow> [r]) xs)))"
| "col_mean (IntCol xs) = Inr (mean_of (map of_int xs))"
| "col_mean _ = Inl TypeError"

subsection \<open>Casting a categorical column\<close>

text \<open>
  The cast of a float to a 64-bit integer drops the fraction (rounds toward zero). Where
  the integer part does not fit 64 bits the C cast is undefined; the conversion
  instruction of x86-64, on which numpy relies, then gives \<open>- 2 ^ 63\<close>.
\<close>

definition trunc_int :: "rat \<Rightarrow> int" where
  "trunc_int r = (if 0 \<le> r then \<lfloor>r\<rfloor> else \<lceil>r\<rceil>)"

definition astype_int64 :: "rat \<Rightarrow> int" where
  "astype_int64 r = (if in_int64 (trunc_int r) then trunc_int r else - (2 ^ 63))"

text \<open>
  \<^verbatim>\<open>col.fillna(-1).astype("int")\<close>, where \<^verbatim>\<open>int\<close> is the 64-bit integer. A float column
  has its missing values replaced and is cast value by value; a string column is parsed as
  \<^verbatim>\<open>int(s)\<close> does, and a number that does not fit 64 bits raises; a timestamp column
  gives its nanosecond counts, unless a missing value was replaced by the number, which
  leaves a column of mixed objects that has no integer cast.
\<close>

fun fillna_astype_int :: "int \<Rightarrow> column \<Rightarrow> error + int list" where
  "fillna_astype_int v (FloatCol xs) =
     Inr (map (\<lambda>x. astype_int64 (case x of None \<Rightarrow> of_int v | Some r \<Rightarrow> r)) xs)"
| "fillna_astype_int v (IntCol xs) = Inr xs"
| "fillna_astype_int v (StrCol xs) =
     mapE (\<lambda>s. case py_int s of None \<Rightarrow> Inl ValueError
                 | Some i \<Rightarrow> if in_int64 i then Inr i else Inl OverflowError) xs"
| "fillna_astype_int v (DatetimeCol xs) =
     mapE (\<lambda>x. case x of None \<Rightarrow> Inl TypeError | Some t \<Rightarrow> Inr t) xs"
| "fillna_astype_int v (TimedeltaCol xs) =
     mapE (\<lambda>x. case x of None \<Rightarrow> Inl TypeError | Some t \<Rightarrow> Inr t) xs"

definition astype_str :: "int list \<Rightarrow> column" where
  "astype_str xs = StrCol (map str_int xs)"

section \<open>Effects\<close>

datatype log_msg =
    MeanTraining "rat option"
  | MeanValidation "rat option"
  | ShapeXTrain nat nat
  | NumFeatures nat
  | MSETraining rat
  | MSEValidation rat

record dict_vectorizer =
  feature_names :: "string list option"

record linear_regression =
  params :: "(rat list \<times> rat) option"

datatype artifact = ModelObj linear_regression | VectorizerObj dict_vectorizer

datatype event = ReadParquet string | Dump artifact string | Log log_msg

text \<open>
  A task that only logs runs on the trace of events. A task that is handed an object it may
  change in place runs on the trace paired with that object.
\<close>

definition emit :: "event \<Rightarrow> (event list, unit) sx" where
  "emit e = (\<lambda>tr. (Inr (), tr @ [e]))"

definition emit_o :: "event \<Rightarrow> (event list \<times> 'o, unit) sx" where
  "emit_o e = (\<lambda>(tr, obj). (Inr (), (tr @ [e], obj)))"

definition get_obj :: "(event list \<times> 'o, 'o) sx" where
  "get_obj = (\<lambda>(tr, obj). (Inr obj, (tr, obj)))"

definition call_with :: "'o \<Rightarrow> (event list \<times> 'o, 'a) sx \<Rightarrow> (event list, 'a) sx" where
  "call_with obj m = (\<lambda>tr. case m (tr, obj) of (r, (tr', obj')) \<Rightarrow> (r, tr'))"

section \<open>Feature Preparer\<close>

text \<open>
  Lines 40 and 41 of the source: both assignments write the \<^verbatim>\<open>duration\<close> column into the
  table object the caller passed.
\<close>

definition attr_o :: "string \<Rightarrow> (event list \<times> dataframe, column) sx" where
  "attr_o name = (\<lambda>(tr, df). (getattr df name, (tr, df)))"

definition setitem_o :: "string \<Rightarrow> column \<Rightarrow> (event list \<times> dataframe, unit) sx" where
  "setitem_o name c = (\<lambda>(tr, df). (Inr (), (tr, setitem df name c)))"

definition derive_duration :: "(event list \<times> dataframe, unit) sx" where
  "derive_duration =
     bindS (attr_o ''dropOff_datetime'') (\<lambda>dropOff.
     bindS (attr_o ''pickup_datetime'') (\<lambda>pickup.
     bindS (liftE (col_sub dropOff pickup)) (\<lambda>delta.
     bindS (setitem_o ''duration'' delta) (\<lambda>_.
     bindS (attr_o ''duration'') (\<lambda>duration.
     bindS (liftE (dt_total_seconds duration)) (\<lambda>seconds.
     setitem_o ''duration'' (FloatCol (div_scalar seconds 60))))))))"

text \<open>Line 42: the rows with \<open>1 \<le> duration \<le> 60\<close>, as a new table.\<close>

definition filter_outliers :: "dataframe \<Rightarrow> error + dataframe" where
  "filter_outliers df =
     bindE (getattr df ''duration'') (\<lambda>d1.
     bindE (col_ge d1 1) (\<lambda>ge.
     bindE (getattr df ''duration'') (\<lambda>d2.
     bindE (col_le d2 60) (\<lambda>le.
       Inr (select_rows df (mask_and ge le))))))"

text \<open>
  Line 50: the categorical columns of the new table become strings. The selection on the
  right is read and cast first; the assignment then sets the columns name by name, and
  raises when a name is repeated in the list, the selection of that name being two columns
  where one is expected.
\<close>

definition encode_categorical :: "dataframe \<Rightarrow> string list \<Rightarrow> error + dataframe" where
  "encode_categorical df categorical =
     bindE (getitems df categorical) (\<lambda>sub.
     bindE (mapE (fillna_astype_int (-1)) sub) (\<lambda>ints.
       if distinct categorical then Inr (setitems df categorical (map astype_str ints))
       else Inl ValueError))"

definition prepare_features :: "string list \<Rightarrow> bool \<Rightarrow> (event list \<times> dataframe, dataframe) sx" where
  "prepare_features categorical train =
     bindS derive_duration (\<lambda>_.
     bindS get_obj (\<lambda>obj.
     bindS (liftE (filter_outliers obj)) (\<lambda>df.
     bindS (liftE (bindE (getattr df ''duration'') col_mean)) (\<lambda>mean_duration.
     bindS (emit_o (Log (if train then MeanTraining mean_duration
                         else MeanValidation mean_duration))) (\<lambda>_.
     liftE (encode_categorical df categorical))))))"

section \<open>Records for the vectorizer\<close>

text \<open>
  \<^verbatim>\<open>df[categorical].to_dict(orient="records")\<close>: one dictionary per row, from column name
  to the value in that row. A repeated name keeps its first place and its last value.
\<close>

datatype pyval = VStr string | VNum "rat option" | VTime "int option"

fun col_values :: "column \<Rightarrow> pyval list" where
  "col_values (DatetimeCol xs) = map VTime xs"
| "col_values (TimedeltaCol xs) = map VTime xs"
| "col_values (FloatCol xs) = map VNum xs"
| "col_values (IntCol xs) = map (\<lambda>i. VNum (Some (of_int i))) xs"
| "col_values (StrCol xs) = map VStr xs"

type_synonym pydict = "(string \<times> pyval) list"

definition add_column :: "string \<times> column \<Rightarrow> pydict list \<Rightarrow> pydict list" where
  "add_column nc ds = map2 (\<lambda>d v. AList.update (fst nc) v d) ds (col_values (snd nc))"

definition to_dict_records :: "dataframe \<Rightarrow> string list \<Rightarrow> error + pydict list" where
  "to_dict_records df names =
     bindE (getitems df names) (\<lambda>cs.
       Inr (fold add_column (zip names cs) (replicate (length (index df)) [])))"

section \<open>The vectorizer and the linear model\<close>

text \<open>
  The sparse matrix a \<^verbatim>\<open>DictVectorizer\<close> builds: per sample, the entries (feature index,
  value), and the number of features.
\<close>

record matrix =
  n_cols :: nat
  entries :: "(nat \<times> rat option) list list"

text \<open>
  A string value \<open>v\<close> of field \<open>f\<close> is the feature \<^verbatim>\<open>f=v\<close> with value one; a number is the
  feature \<open>f\<close> with that value; any other value is rejected.
\<close>

fun feature :: "string \<times> pyval \<Rightarrow> error + (string \<times> rat option)" where
  "feature (f, VStr v) = Inr (f @ ''='' @ v, Some 1)"
| "feature (f, VNum v) = Inr (f, v)"
| "feature (f, VTime v) = Inl TypeError"

fun position :: "string \<Rightarrow> string list \<Rightarrow> nat option" where
  "position x [] = None"
| "position x (y # ys) = (if x = y then Some 0 else map_option Suc (position x ys))"

definition sample_entries :: "string list \<Rightarrow> (string \<times> rat option) list \<Rightarrow> (nat \<times> rat option) list" where
  "sample_entries vocab fs =
     concat (map (\<lambda>(name, v). case position name vocab of None \<Rightarrow> [] | Some j \<Rightarrow> [(j, v)]) fs)"

text \<open>
  \<^verbatim>\<open>fit_transform\<close> learns the sorted feature names and stores them in the object;
  \<^verbatim>\<open>transform\<close> reads them, skips features it has not learnt and stores nothing; before
  a fit the attribute it reads does not exist. Both raise on an empty sequence of samples. Each returns its outcome and the object after the
  call.
\<close>

definition dv_fit_transform ::
  "dict_vectorizer \<Rightarrow> pydict list \<Rightarrow> (error + matrix) \<times> dict_vectorizer" where
  "dv_fit_transform dv X =
     (case mapE (mapE feature) X of
        Inl e \<Rightarrow> (Inl e, dv)
      | Inr fss \<Rightarrow>
          if X = [] then (Inl ValueError, dv)
          else let names = sort (remdups (map fst (concat fss)))
               in (Inr \<lparr>n_cols = length names, entries = map (sample_entries names) fss\<rparr>,
                   dv\<lparr>feature_names := Some names\<rparr>))"

definition dv_transform ::
  "dict_vectorizer \<Rightarrow> pydict list \<Rightarrow> (error + matrix) \<times> dict_vectorizer" where
  "dv_transform dv X =
     (case feature_names dv of
        None \<Rightarrow> (Inl AttributeError, dv)
      | Some names \<Rightarrow>
          (case mapE (mapE feature) X of
             Inl e \<Rightarrow> (Inl e, dv)
           | Inr fss \<Rightarrow>
               if X = [] then (Inl ValueError, dv)
               else (Inr \<lparr>n_cols = length names, entries = map (sample_entries names) fss\<rparr>,
                     dv)))"

text \<open>
  The numerical routines are collaborators of the pipeline: the least-squares solver behind
  \<^verbatim>\<open>LinearRegression.fit\<close>, the evaluation of the fitted parameters behind \<^verbatim>\<open>predict\<close>,
  and the root-mean-squared error. So are the file reader, the file writer, the clock and
  the scheduler of the task runner.
\<close>

record env =
  today :: string
  read_parquet :: "string \<Rightarrow> error + dataframe"
  write_file :: "string \<Rightarrow> error + unit"
  schedule :: "bool list"
  least_squares :: "matrix \<Rightarrow> column \<Rightarrow> error + (rat list \<times> rat)"
  decision_function :: "rat list \<times> rat \<Rightarrow> matrix \<Rightarrow> error + rat list"
  root_mean_squared_error :: "column \<Rightarrow> rat list \<Rightarrow> error + rat"

definition lr_fit ::
  "env \<Rightarrow> linear_regression \<Rightarrow> matrix \<Rightarrow> column \<Rightarrow> (error + unit) \<times> linear_regression" where
  "lr_fit env lr X y =
     (case least_squares env X y of
        Inl e \<Rightarrow> (Inl e, lr)
      | Inr p \<Rightarrow> (Inr (), lr\<lparr>params := Some p\<rparr>))"

definition lr_predict ::
  "env \<Rightarrow> linear_regression \<Rightarrow> matrix \<Rightarrow> (error + rat list) \<times> linear_regression" where
  "lr_predict env lr X =
     (case params lr of
        None \<Rightarrow> (Inl NotFittedError, lr)
      | Some p \<Rightarrow> (decision_function env p X, lr))"

section \<open>Trainer\<close>

definition train_model ::
  "env \<Rightarrow> dataframe \<Rightarrow> string list \<Rightarrow> (event list, linear_regression \<times> dict_vectorizer) sx" where
  "train_model env df categorical =
     bindS (liftE (to_dict_records df categorical)) (\<lambda>train_dicts.
     case dv_fit_transform \<lparr>feature_names = None\<rparr> train_dicts of (r, dv) \<Rightarrow>
     bindS (liftE r) (\<lambda>X_train.
     bindS (liftE (getattr df ''duration'')) (\<lambda>y_train.
     bindS (emit (Log (ShapeXTrain (length (entries X_train)) (n_cols X_train)))) (\<lambda>_.
     bindS (liftE (case feature_names dv of None \<Rightarrow> Inl AttributeError | Some ns \<Rightarrow> Inr ns))
       (\<lambda>names.
     bindS (emit (Log (NumFeatures (length names)))) (\<lambda>_.
     case lr_fit env \<lparr>params = None\<rparr> X_train y_train of (r1, lr) \<Rightarrow>
     bindS (liftE r1) (\<lambda>_.
     case lr_predict env lr X_train of (r2, lr') \<Rightarrow>
     bindS (liftE r2) (\<lambda>y_pred.
     bindS (liftE (root_mean_squared_error env y_train y_pred)) (\<lambda>mse.
     bindS (emit (Log (MSETraining mse))) (\<lambda>_.
     returnS (lr', dv)))))))))))"

section \<open>Evaluator\<close>

text \<open>
  The vectorizer and the model are the caller's objects; the state carries them next to the
  trace, and each method call leaves there the object as it is after the call.
\<close>

definition transform_o ::
  "pydict list \<Rightarrow> (event list \<times> dict_vectorizer \<times> linear_regression, matrix) sx" where
  "transform_o X = (\<lambda>(tr, dv, lr). case dv_transform dv X of (r, dv') \<Rightarrow> (r, (tr, dv', lr)))"

definition predict_o ::
  "env \<Rightarrow> matrix \<Rightarrow> (event list \<times> dict_vectorizer \<times> linear_regression, rat list) sx" where
  "predict_o env X = (\<lambda>(tr, dv, lr). case lr_predict env lr X of (r, lr') \<Rightarrow> (r, (tr, dv, lr')))"

definition run_model ::
  "env \<Rightarrow> dataframe \<Rightarrow> string list \<Rightarrow>
     (event list \<times> dict_vectorizer \<times> linear_regression, unit) sx" where
  "run_model env df categorical =
     bindS (liftE (to_dict_records df categorical)) (\<lambda>val_dicts.
     bindS (transform_o val_dicts) (\<lambda>X_val.
     bindS (predict_o env X_val) (\<lambda>y_pred.
     bindS (liftE (getattr df ''duration'')) (\<lambda>y_val.
     bindS (liftE (root_mean_squared_error env y_val y_pred)) (\<lambda>mse.
     bindS (emit_o (Log (MSEValidation mse))) (\<lambda>_.
     returnS ()))))))"

section \<open>Pipeline Driver\<close>

text \<open>
  \<^verbatim>\<open>joblib.dump\<close> writes the object under the given file name, or raises; whether a
  file can be written is the file system's answer. A dump that raises has written no
  artifact.
\<close>

definition read_data :: "env \<Rightarrow> string \<Rightarrow> (event list, dataframe) sx" where
  "read_data env path = bindS (emit (ReadParquet path)) (\<lambda>_. liftE (read_parquet env path))"

definition dump :: "env \<Rightarrow> artifact \<Rightarrow> string \<Rightarrow> (event list, unit) sx" where
  "dump env obj filename =
     bindS (liftE (write_file env filename)) (\<lambda>_. emit (Dump obj filename))"

text \<open>
  Under the flow decorator a call of a task does not run the task in place: it hands the
  task to the task runner and returns a future at once. The task runs concurrently with
  the flow and with the other tasks, once the tasks whose futures it was given have
  finished; given a failed future it does not run, and fails with it. Only
  \<^verbatim>\<open>.result()\<close> waits for a task and raises its failure into the flow; tasks already
  submitted run to their end all the same. A future is written as the outcome of its task
  together with the events of the task and of the tasks it waited for, in their order.
\<close>

type_synonym 'a future = "(error + 'a) \<times> event list"

definition submit :: "(event list, 'a) sx \<Rightarrow> 'a future" where
  "submit task = task []"

definition submit_after :: "'a future \<Rightarrow> ('a \<Rightarrow> (event list, 'b) sx) \<Rightarrow> 'b future" where
  "submit_after upstream task =
     (case upstream of (Inl e, evs) \<Rightarrow> (Inl e, evs) | (Inr x, evs) \<Rightarrow> task x evs)"

text \<open>
  Two lines of tasks that do not wait for each other run in an order the scheduler
  decides. A list of choices stands for the scheduler: \<open>True\<close> lets the first line take
  its next step, \<open>False\<close> the second; when the choices are used up the first line runs to
  its end before the second goes on.
\<close>

fun interleave :: "bool list \<Rightarrow> 'a list \<Rightarrow> 'a list \<Rightarrow> 'a list" where
  "interleave cs [] ys = ys"
| "interleave cs (x # xs) [] = x # xs"
| "interleave [] (x # xs) (y # ys) = (x # xs) @ (y # ys)"
| "interleave (True # cs) (x # xs) (y # ys) = x # interleave cs xs (y # ys)"
| "interleave (False # cs) (x # xs) (y # ys) = y # interleave cs (x # xs) ys"

text \<open>
  The flow. The paths are awaited with \<^verbatim>\<open>.result()\<close> before anything else is submitted.
  The two reads and the two preparations are submitted without being awaited; the training
  is awaited, so the statements after it (the two dumps) run after the training line, and
  the flow raises there if that line has failed. The evaluation is submitted last, after
  the dumps, and waits for the prepared validation table. The run fails with the exception
  raised in the flow, or else with the failure of a task.
\<close>

definition main :: "env \<Rightarrow> string option \<Rightarrow> (event list, unit) sx" where
  "main env date_arg = (\<lambda>tr0.
     let date = (case date_arg of None \<Rightarrow> today env | Some d \<Rightarrow> d) in
     case get_paths date of
       Inl e \<Rightarrow> (Inl e, tr0)
     | Inr (train_path, val_path) \<Rightarrow>
         let categorical = [''PUlocationID'', ''DOlocationID''];
             df_train = submit (read_data env train_path);
             df_train_processed =
               submit_after df_train (\<lambda>df. call_with df (prepare_features categorical True));
             df_val = submit (read_data env val_path);
             df_val_processed =
               submit_after df_val (\<lambda>df. call_with df (prepare_features categorical False));
             trained = submit_after df_train_processed (\<lambda>df. train_model env df categorical);
             dumped = submit_after trained (\<lambda>(lr, dv).
               bindS (dump env (ModelObj lr) (''model-'' @ date @ ''.bin'')) (\<lambda>_.
               bindS (dump env (VectorizerObj dv) (''dv-'' @ date @ ''.b'')) (\<lambda>_.
               returnS (lr, dv))));
             evaluated =
               (case (fst dumped, fst df_val_processed) of
                  (Inl e, _) \<Rightarrow> (Inl e, [])
                | (Inr (lr, dv), Inl e) \<Rightarrow> (Inl e, [])
                | (Inr (lr, dv), Inr df) \<Rightarrow>
                    submit (call_with (dv, lr) (run_model env df categorical)))
         in (fst evaluated,
             tr0 @ interleave (schedule env) (snd dumped) (snd df_val_processed)
                 @ snd evaluated))"

section \<open>The duration rule as the specification words it\<close>

text \<open>
  The duration of a trip is its drop-off time minus its pickup time, in minutes; a trip with
  a missing time has no duration. A duration is in range when it lies in \<open>[1, 60]\<close>.
\<close>

definition duration_minutes :: "int option list \<Rightarrow> int option list \<Rightarrow> rat option list" where
  "duration_minutes dropoff pickup =
     map2 (\<lambda>d p. case (d, p) of (Some a, Some b) \<Rightarrow> Some (of_int (a - b) / 60000000000)
                  | _ \<Rightarrow> None) dropoff pickup"

definition in_range :: "rat option \<Rightarrow> bool" where
  "in_range d = (case d of None \<Rightarrow> False | Some r \<Rightarrow> 1 \<le> r \<and> r \<le> 60)"

text \<open>The two time columns of a table, where it has them with one time type.\<close>

definition trip_times :: "dataframe \<Rightarrow> (int option list \<times> int option list) option" where
  "trip_times df =
     (case (map_of (columns df) ''dropOff_datetime'', map_of (columns df) ''pickup_datetime'') of
        (Some (DatetimeCol a), Some (DatetimeCol b)) \<Rightarrow> Some (a, b)
      | (Some (TimedeltaCol a), Some (TimedeltaCol b)) \<Rightarrow> Some (a, b)
      | _ \<Rightarrow> None)"

definition trip_durations :: "dataframe \<Rightarrow> rat option list option" where
  "trip_durations df = map_option (\<lambda>(d, p). duration_minutes d p) (trip_times df)"

text \<open>The number of rows of a column, and the encoding a categorical column receives.\<close>

fun col_len :: "column \<Rightarrow> nat" where
  "col_len (DatetimeCol xs) = length xs"
| "col_len (TimedeltaCol xs) = length xs"
| "col_len (FloatCol xs) = length xs"
| "col_len (IntCol xs) = length xs"
| "col_len (StrCol xs) = length xs"

definition encoded :: "dataframe \<Rightarrow> string \<Rightarrow> column \<Rightarrow> bool" where
  "encoded df n c' = (\<exists>c ints. map_of (columns df) n = Some c \<and>
      fillna_astype_int (-1) c = Inr ints \<and> c' = astype_str ints)"

text \<open>
  A small table of five trips, lasting 10 minutes, half a minute, 60 minutes, 61 minutes
  and one without a pickup time; the table after the call; the rows kept; and the table
  returned.
\<close>

definition example_trips :: dataframe where
  "example_trips =
     \<lparr>index = [0, 1, 2, 3, 4],
      columns =
        [(''pickup_datetime'', DatetimeCol [Some 0, Some 0, Some 0, Some 0, None]),
         (''dropOff_datetime'',
          DatetimeCol [Some 600000000000, Some 30000000000, Some 3600000000000,
                       Some 3660000000000, Some 600000000000]),
         (''PUlocationID'', FloatCol [None, Some 3, Some 7, None, Some 1]),
         (''DOlocationID'', FloatCol [Some (79 / 10), Some 2, Some (- (5 / 2)), Some 4, None])]\<rparr>"

definition example_after :: dataframe where
  "example_after =
     \<lparr>index = [0, 1, 2, 3, 4],
      columns =
        [(''pickup_datetime'', DatetimeCol [Some 0, Some 0, Some 0, Some 0, None]),
         (''dropOff_datetime'',
          DatetimeCol [Some 600000000000, Some 30000000000, Some 3600000000000,
                       Some 3660000000000, Some 600000000000]),
         (''PUlocationID'', FloatCol [None, Some 3, Some 7, None, Some 1]),
         (''DOlocationID'', FloatCol [Some (79 / 10), Some 2, Some (- (5 / 2)), Some 4, None]),
         (''duration'', FloatCol [Some 10, Some (1 / 2), Some 60, Some 61, None])]\<rparr>"

definition example_filtered :: dataframe where
  "example_filtered =
     \<lparr>index = [0, 2],
      columns =
        [(''pickup_datetime'', DatetimeCol [Some 0, Some 0]),
         (''dropOff_datetime'', DatetimeCol [Some 600000000000, Some 3600000000000]),
         (''PUlocationID'', FloatCol [None, Some 7]),
         (''DOlocationID'', FloatCol [Some (79 / 10), Some (- (5 / 2))]),
         (''duration'', FloatCol [Some 10, Some 60])]\<rparr>"

definition example_prepared :: dataframe where
  "example_prepared =
     \<lparr>index = [0, 2],
      columns =
        [(''pickup_datetime'', DatetimeCol [Some 0, Some 0]),
         (''dropOff_datetime'', DatetimeCol [Some 600000000000, Some 3600000000000]),
         (''PUlocationID'', StrCol [''-1'', ''7'']),
         (''DOlocationID'', StrCol [''7'', ''-2'']),
         (''duration'', FloatCol [Some 10, Some 60])]\<rparr>"

definition categorical_fields :: "string list" where
  "categorical_fields = [''PUlocationID'', ''DOlocationID'']"

text \<open>A log line with the phase it names forgotten.\<close>

fun phase_blind :: "event \<Rightarrow> event" where
  "phase_blind (Log (MeanValidation m)) = Log (MeanTraining m)"
| "phase_blind e = e"

section \<open>Reading a run from its trace\<close>





fun artifact_of :: "event \<Rightarrow> string list" where
  "artifact_of (Dump obj f) = [f]"
| "artifact_of e = []"

definition artifacts :: "event list \<Rightarrow> string list" where
  "artifacts tr = concat (map artifact_of tr)"

fun read_of :: "event \<Rightarrow> string list" where
  "read_of (ReadParquet p) = [p]"
| "read_of e = []"

definition reads :: "event list \<Rightarrow> string list" where
  "reads tr = concat (map read_of tr)"

definition run_date :: "env \<Rightarrow> string option \<Rightarrow> string" where
  "run_date env date_arg = (case date_arg of None \<Rightarrow> today env | Some d \<Rightarrow> d)"

text \<open>The lines of the flow by name: the futures that \<open>main\<close> builds.\<close>

definition training_run :: "env \<Rightarrow> string \<Rightarrow> (linear_regression \<times> dict_vectorizer) future" where
  "training_run env path =
     submit_after
       (submit_after (submit (read_data env path))
          (\<lambda>df. call_with df (prepare_features [''PUlocationID'', ''DOlocationID''] True)))
       (\<lambda>df. train_model env df [''PUlocationID'', ''DOlocationID''])"

definition validation_run :: "env \<Rightarrow> string \<Rightarrow> dataframe future" where
  "validation_run env path =
     submit_after (submit (read_data env path))
       (\<lambda>df. call_with df (prepare_features [''PUlocationID'', ''DOlocationID''] False))"

definition persist_run ::
  "env \<Rightarrow> string \<Rightarrow> (linear_regression \<times> dict_vectorizer) future \<Rightarrow>
     (linear_regression \<times> dict_vectorizer) future" where
  "persist_run env date trained =
     submit_after trained (\<lambda>(lr, dv).
       bindS (dump env (ModelObj lr) (''model-'' @ date @ ''.bin'')) (\<lambda>_.
       bindS (dump env (VectorizerObj dv) (''dv-'' @ date @ ''.b'')) (\<lambda>_.
       returnS (lr, dv))))"

definition evaluation_run ::
  "env \<Rightarrow> error + (linear_regression \<times> dict_vectorizer) \<Rightarrow> error + dataframe \<Rightarrow> unit future" where
  "evaluation_run env dumped prepared =
     (case (dumped, prepared) of
        (Inl e, _) \<Rightarrow> (Inl e, [])
      | (Inr (lr, dv), Inl e) \<Rightarrow> (Inl e, [])
      | (Inr (lr, dv), Inr df) \<Rightarrow>
          submit (call_with (dv, lr) (run_model env df [''PUlocationID'', ''DOlocationID''])))"

section \<open>Example environments\<close>





definition zero_fit :: "matrix \<Rightarrow> column \<Rightarrow> error + (rat list \<times> rat)" where
  "zero_fit X y = Inr (replicate (n_cols X) 0, 35)"

definition constant_prediction :: "rat list \<times> rat \<Rightarrow> matrix \<Rightarrow> error + rat list" where
  "constant_prediction p X = Inr (map (\<lambda>row. snd p) (entries X))"

definition zero_error :: "column \<Rightarrow> rat list \<Rightarrow> error + rat" where
  "zero_error y p = Inr 0"


definition example_env :: env where
  "example_env =
     \<lparr>today = ''2022-01-15'',
      read_parquet = (\<lambda>path. Inr example_trips),
      write_file = (\<lambda>filename. Inr ()),
      schedule = [],
      least_squares = zero_fit,
      decision_function = constant_prediction,
      root_mean_squared_error = zero_error\<rparr>"

definition example_dv :: dict_vectorizer where
  "example_dv =
     \<lparr>feature_names = Some [''DOlocationID=-2'', ''DOlocationID=7'',
                             ''PUlocationID=-1'', ''PUlocationID=7'']\<rparr>"

definition example_lr :: linear_regression where
  "example_lr = \<lparr>params = Some ([0, 0, 0, 0], 35)\<rparr>"

section \<open>The date strings the format accepts\<close>

text \<open>
  The format \<^verbatim>\<open>%Y-%m-%d\<close> described by its language: a year of four digits, a hyphen, a
  month from 1 to 12 written with or without a leading zero, a hyphen, a day written with
  or without a leading zero or with a leading space, and nothing more; the year is at
  least 1 and the month has the day.
\<close>

definition month_texts :: "string list" where
  "month_texts =
     [''01'', ''1'', ''02'', ''2'', ''03'', ''3'', ''04'', ''4'', ''05'', ''5'', ''06'',
      ''6'', ''07'', ''7'', ''08'', ''8'', ''09'', ''9'', ''10'', ''11'', ''12'']"

definition day_texts :: "string list" where
  "day_texts =
     [''01'', ''1'', '' 1'', ''02'', ''2'', '' 2'', ''03'', ''3'', '' 3'', ''04'', ''4'',
      '' 4'', ''05'', ''5'', '' 5'', ''06'', ''6'', '' 6'', ''07'', ''7'', '' 7'', ''08'',
      ''8'', '' 8'', ''09'', ''9'', '' 9'', ''10'', ''11'', ''12'', ''13'', ''14'', ''15'',
      ''16'', ''17'', ''18'', ''19'', ''20'', ''21'', ''22'', ''23'', ''24'', ''25'',
      ''26'', ''27'', ''28'', ''29'', ''30'', ''31'']"

definition field_val :: "string \<Rightarrow> int" where
  "field_val t = dec_val (filter is_digit t)"

definition accepted_date :: "string \<Rightarrow> bool" where
  "accepted_date s =
     (\<exists>ms \<in> set month_texts. \<exists>ds \<in> set day_texts.
        length (take 4 s) = 4 \<and> list_all is_digit (take 4 s) \<and>
        drop 4 s = ''-'' @ ms @ ''-'' @ ds \<and>
        1 \<le> dec_val (take 4 s) \<and>
        field_val ds \<le> days_in_month (dec_val (take 4 s)) (field_val ms))"

text \<open>
  An environment like the example one in which the file of the vectorizer cannot be
  written.
\<close>

definition failing_dump_env :: env where
  "failing_dump_env =
     \<lparr>today = ''2022-01-15'',
      read_parquet = (\<lambda>path. Inr example_trips),
      write_file = (\<lambda>filename. if filename = ''dv-2022-01-15.b'' then Inl IOError else Inr ()),
      schedule = [True, True, False],
      least_squares = zero_fit,
      decision_function = constant_prediction,
      root_mean_squared_error = zero_error\<rparr>"

section \<open>Parsing a well-formed date\<close>

lemma is_digit_cases:
  "is_digit c \<Longrightarrow> c = CHR ''0'' \<or> c = CHR ''1'' \<or> c = CHR ''2'' \<or> c = CHR ''3'' \<or> c = CHR ''4'' \<or>
     c = CHR ''5'' \<or> c = CHR ''6'' \<or> c = CHR ''7'' \<or> c = CHR ''8'' \<or> c = CHR ''9''"
  by (simp add: is_digit_def)

lemma is_digit_not_special:
  "is_digit c \<Longrightarrow> \<not> py_isspace c \<and> c \<noteq> CHR ''-'' \<and> c \<noteq> CHR ''+'' \<and> c \<noteq> CHR ''_''"
  by (drule is_digit_cases) (auto simp: py_isspace_def)

lemma digit_val_range: "is_digit c \<Longrightarrow> 0 \<le> digit_val c \<and> digit_val c \<le> 9"
  by (drule is_digit_cases) (auto simp: digit_val_def)

lemma py_int_digits4:
  assumes "is_digit a" "is_digit b" "is_digit c" "is_digit d"
  shows "py_int [a, b, c, d] = Some (dec_val [a, b, c, d])"
  using assms is_digit_not_special[of a] is_digit_not_special[of b]
    is_digit_not_special[of c] is_digit_not_special[of d]
  by (simp add: py_int_def strip_def)

lemma py_int_digits2:
  assumes "is_digit a" "is_digit b"
  shows "py_int [a, b] = Some (dec_val [a, b])"
  using assms is_digit_not_special[of a] is_digit_not_special[of b]
  by (simp add: py_int_def strip_def)

lemma match_year:
  assumes "is_digit a" "is_digit b" "is_digit c" "is_digit d" "k r = Some v"
  shows "match_alts year_re k (a # b # c # d # r) = Some ([a, b, c, d], v)"
  using assms by (simp add: year_re_def is_digit_def)

lemma match_month:
  assumes "is_digit a" "is_digit b" "1 \<le> dec_val [a, b]" "dec_val [a, b] \<le> 12" "k r = Some v"
  shows "match_alts month_re k (a # b # r) = Some ([a, b], v)"
  using assms(3,4,5) is_digit_cases[OF assms(1)] is_digit_cases[OF assms(2)]
  by (elim disjE; simp add: month_re_def dec_val_def digit_val_def)

lemma match_day:
  assumes "is_digit a" "is_digit b" "1 \<le> dec_val [a, b]" "dec_val [a, b] \<le> 31"
  shows "match_alts day_re Some [a, b] = Some ([a, b], [])"
  using assms(3,4) is_digit_cases[OF assms(1)] is_digit_cases[OF assms(2)]
  by (elim disjE; simp add: day_re_def dec_val_def digit_val_def)

lemma length10E:
  assumes "length s = 10"
  obtains a b c d e f g h i j where "s = [a, b, c, d, e, f, g, h, i, j]"
  using assms by (auto simp: numeral_eq_Suc length_Suc_conv)

lemma dec_val4_le:
  assumes "is_digit a" "is_digit b" "is_digit c" "is_digit d"
  shows "dec_val [a, b, c, d] \<le> 9999"
  using digit_val_range[OF assms(1)] digit_val_range[OF assms(2)]
    digit_val_range[OF assms(3)] digit_val_range[OF assms(4)]
  by (simp add: dec_val_def)

lemma days_in_month_le: "days_in_month y m \<le> 31"
  by (simp add: days_in_month_def)

lemma days_in_month_ge: "1 \<le> days_in_month y m"
  by (simp add: days_in_month_def)

lemma well_formed_year_le:
  assumes "well_formed_date s"
  shows "date_year s \<le> 9999"
proof -
  from assms have "length s = 10" by (simp add: well_formed_date_def)
  then obtain a b c d e f g h i j where "s = [a, b, c, d, e, f, g, h, i, j]"
    by (rule length10E)
  with assms show ?thesis
    by (simp add: well_formed_date_def date_year_def dec_val4_le)
qed

lemma strptime_well_formed:
  assumes "well_formed_date s"
  shows "strptime s = Inr \<lparr>year = date_year s, month = date_month s, day = date_day s\<rparr>"
proof -
  from assms have len: "length s = 10" by (simp add: well_formed_date_def)
  then obtain a b c d e f g h i j where s: "s = [a, b, c, d, e, f, g, h, i, j]"
    by (rule length10E)
  from assms s have dg: "is_digit a" "is_digit b" "is_digit c" "is_digit d"
      "is_digit f" "is_digit g" "is_digit i" "is_digit j"
    and hy: "e = CHR ''-''" "h = CHR ''-''"
    by (simp_all add: well_formed_date_def)
  from assms s have rng: "1 \<le> dec_val [a, b, c, d]" "1 \<le> dec_val [f, g]" "dec_val [f, g] \<le> 12"
      "1 \<le> dec_val [i, j]" "dec_val [i, j] \<le> days_in_month (dec_val [a, b, c, d]) (dec_val [f, g])"
    by (simp_all add: well_formed_date_def date_year_def date_month_def date_day_def)
  have d31: "dec_val [i, j] \<le> 31"
    using rng(5) days_in_month_le[of "dec_val [a, b, c, d]" "dec_val [f, g]"] by linarith
  have md: "match_alts day_re Some [i, j] = Some ([i, j], [])"
    by (rule match_day[OF dg(7,8) rng(4) d31])
  have mm: "match_alts month_re (lit (CHR ''-'') (match_alts day_re Some)) (f # g # CHR ''-'' # [i, j])
      = Some ([f, g], [i, j], [])"
    by (rule match_month[OF dg(5,6) rng(2,3)]) (simp add: lit_def md)
  have mf: "match_format [a, b, c, d, e, f, g, h, i, j] = Some ([a, b, c, d], [f, g], [i, j], [])"
    unfolding match_format_def hy
    by (rule match_year[OF dg(1-4)]) (simp add: lit_def mm)
  show ?thesis
    using rng dec_val4_le[OF dg(1-4)]
    by (simp add: strptime_def mf py_int_digits4[OF dg(1-4)] py_int_digits2[OF dg(5,6)]
        py_int_digits2[OF dg(7,8)] mk_date_def s date_year_def date_month_def date_day_def)
qed

lemma add_months_back:
  assumes "1 \<le> y" "y \<le> 9999" "1 \<le> m" "m \<le> 12" "1 \<le> d" "k = 1 \<or> k = 2"
    and "1 \<le> (12 * y + (m - 1) - k) div 12"
  shows "\<exists>d'. add_months \<lparr>year = y, month = m, day = d\<rparr> (- k)
    = Inr \<lparr>year = (12 * y + (m - 1) - k) div 12, month = (12 * y + (m - 1) - k) mod 12 + 1, day = d'\<rparr>"
proof -
  define y' where "y' = (if m - k < 1 then y - 1 else y)"
  define m' where "m' = (if m - k < 1 then m - k + 12 else m - k)"
  have eq: "12 * y + (m - 1) - k = y' * 12 + (m' - 1)"
    by (simp add: y'_def m'_def)
  have r: "0 \<le> m' - 1" "m' - 1 < 12"
    using assms(3,4,6) by (auto simp: m'_def)
  have yy: "(12 * y + (m - 1) - k) div 12 = y'"
    unfolding eq using r by simp
  have mm: "(12 * y + (m - 1) - k) mod 12 + 1 = m'"
    unfolding eq using r by simp
  have "1 \<le> y'" using assms(7) yy by simp
  moreover have "y' \<le> 9999" using assms(2) by (simp add: y'_def)
  moreover have "1 \<le> m'" "m' \<le> 12" using r by simp_all
  moreover have "add_months \<lparr>year = y, month = m, day = d\<rparr> (- k)
      = mk_date y' m' (min (days_in_month y' m') d)"
    using assms(3,4,6) by (auto simp: add_months_def Let_def y'_def m'_def)
  ultimately show ?thesis
    unfolding yy mm using assms(5) days_in_month_ge[of y' m']
    by (simp add: mk_date_def)
qed

lemma fmt_02d_length: "1 \<le> m \<Longrightarrow> m \<le> 12 \<Longrightarrow> length (fmt_02d m) = 2"
proof -
  assume "1 \<le> m" "m \<le> 12"
  then have "m = 1 \<or> m = 2 \<or> m = 3 \<or> m = 4 \<or> m = 5 \<or> m = 6 \<or> m = 7 \<or> m = 8 \<or> m = 9 \<or>
    m = 10 \<or> m = 11 \<or> m = 12" by arith
  then show ?thesis
    by (elim disjE; simp add: fmt_02d_def str_int_def str_nat.simps)
qed

section \<open>Path Resolver: the two months before the reference date\<close>

lemma get_paths_before_year_one:
  assumes "well_formed_date D" and "fst (months_before D 2) < 1"
  shows "get_paths D = Inl ValueError"
proof -
  let ?y = "date_year D" and ?m = "date_month D" and ?d = "date_day D"
  from assms(1) have sp: "strptime D = Inr \<lparr>year = ?y, month = ?m, day = ?d\<rparr>"
    by (rule strptime_well_formed)
  from assms(1) have rng: "1 \<le> ?y" "1 \<le> ?m"
    by (simp_all add: well_formed_date_def)
  define a where "a = 12 * ?y + (?m - 1) - 2"
  have q: "a div 12 < 1"
    using assms(2) by (simp add: months_before_def Let_def a_def)
  have "a = 12 * (a div 12) + a mod 12" by simp
  moreover have "a mod 12 < 12" by simp
  ultimately have "a < 12" using q by linarith
  with rng have ym: "?y = 1" "?m - 2 < 1" by (simp_all add: a_def)
  show ?thesis
    using ym by (simp add: get_paths_def sp bindE_def add_months_def mk_date_def Let_def)
qed

text \<open>
  Claim C2, as the code has it. For a well-formed reference date whose training month is
  not before year 1, \<open>get_paths\<close> returns the two dataset paths
  \<^verbatim>\<open>./data/fhv_tripdata_<year>-<month>.parquet\<close>, the month in two digits: the training
  path names the month two calendar months before the month of the date, the validation
  path the month one calendar month before it, the year carried at the turn of the year.
\<close>

theorem get_paths_months_back:
  assumes "well_formed_date D" and "1 \<le> fst (months_before D 2)"
  shows "get_paths D =
      Inr (dataset_path (fst (months_before D 2)) (snd (months_before D 2)),
           dataset_path (fst (months_before D 1)) (snd (months_before D 1)))
    \<and> length (fmt_02d (snd (months_before D 2))) = 2
    \<and> length (fmt_02d (snd (months_before D 1))) = 2"
proof -
  let ?y = "date_year D" and ?m = "date_month D" and ?d = "date_day D"
  from assms(1) have sp: "strptime D = Inr \<lparr>year = ?y, month = ?m, day = ?d\<rparr>"
    by (rule strptime_well_formed)
  from assms(1) have rng: "1 \<le> ?y" "1 \<le> ?m" "?m \<le> 12" "1 \<le> ?d"
    by (simp_all add: well_formed_date_def)
  from assms(1) have y9: "?y \<le> 9999"
    by (rule well_formed_year_le)
  have t2: "1 \<le> (12 * ?y + (?m - 1) - 2) div 12"
    using assms(2) by (simp add: months_before_def Let_def)
  have t1: "1 \<le> (12 * ?y + (?m - 1) - 1) div 12"
  proof -
    have "(12 * ?y + (?m - 1) - 2) div 12 \<le> (12 * ?y + (?m - 1) - 1) div 12"
      by (rule zdiv_mono1) simp_all
    with t2 show ?thesis by linarith
  qed
  obtain d2 where a2: "add_months \<lparr>year = ?y, month = ?m, day = ?d\<rparr> (- 2)
    = Inr \<lparr>year = (12 * ?y + (?m - 1) - 2) div 12, month = (12 * ?y + (?m - 1) - 2) mod 12 + 1, day = d2\<rparr>"
    using add_months_back[OF rng(1) y9 rng(2,3,4) _ t2] by auto
  obtain d1 where a1: "add_months \<lparr>year = ?y, month = ?m, day = ?d\<rparr> (- 1)
    = Inr \<lparr>year = (12 * ?y + (?m - 1) - 1) div 12, month = (12 * ?y + (?m - 1) - 1) mod 12 + 1, day = d1\<rparr>"
    using add_months_back[OF rng(1) y9 rng(2,3,4) _ t1] by auto
  have "get_paths D =
      Inr (dataset_path (fst (months_before D 2)) (snd (months_before D 2)),
           dataset_path (fst (months_before D 1)) (snd (months_before D 1)))"
    by (simp add: get_paths_def sp a2 a1 bindE_def months_before_def Let_def)
  moreover have "length (fmt_02d (snd (months_before D 2))) = 2"
    by (rule fmt_02d_length) (simp_all add: months_before_def Let_def)
  moreover have "length (fmt_02d (snd (months_before D 1))) = 2"
    by (rule fmt_02d_length) (simp_all add: months_before_def Let_def)
  ultimately show ?thesis by simp
qed

text \<open>
  The example of the specification: the reference date 2022-01-15 gives the training month
  2021-11 and the validation month 2021-12.
\<close>

theorem get_paths_months_back_witness:
  "well_formed_date ''2022-01-15'' \<and> 1 \<le> fst (months_before ''2022-01-15'' 2) \<and>
   get_paths ''2022-01-15'' =
     Inr (''./data/fhv_tripdata_2021-11.parquet'', ''./data/fhv_tripdata_2021-12.parquet'')"
proof -
  have w: "well_formed_date ''2022-01-15''"
    by (simp add: well_formed_date_def is_digit_def date_year_def date_month_def date_day_def
        dec_val_def digit_val_def days_in_month_def)
  have m: "1 \<le> fst (months_before ''2022-01-15'' 2)"
    by (simp add: months_before_def date_year_def date_month_def dec_val_def digit_val_def)
  have p: "dataset_path (fst (months_before ''2022-01-15'' 2)) (snd (months_before ''2022-01-15'' 2))
      = ''./data/fhv_tripdata_2021-11.parquet''"
     "dataset_path (fst (months_before ''2022-01-15'' 1)) (snd (months_before ''2022-01-15'' 1))
      = ''./data/fhv_tripdata_2021-12.parquet''"
    by (simp_all add: months_before_def date_year_def date_month_def dec_val_def digit_val_def
        dataset_path_def str_int_def str_nat.simps fmt_02d_def digit_char_def)
  from get_paths_months_back[OF w m] show ?thesis using w m p by simp
qed

text \<open>
  Claim C2 as stated fails in the first two months of year 1: the date is well formed, the
  month two months before it lies in year 0, which \<^verbatim>\<open>datetime.date\<close> does not have, and
  \<open>get_paths\<close> raises.
\<close>

theorem get_paths_year_one_counterexample:
  "well_formed_date ''0001-01-15'' \<and> get_paths ''0001-01-15'' = Inl ValueError"
  by (simp add: well_formed_date_def is_digit_def date_year_def date_month_def date_day_def
        dec_val_def digit_val_def days_in_month_def get_paths_def strptime_def match_format_def
        year_re_def month_re_def day_re_def lit_def py_int_def strip_def py_isspace_def
        mk_date_def add_months_def bindE_def isleap_def)

section \<open>Facts about tables and the Feature Preparer\<close>

lemma pick_map_filter: "pick (map P xs) xs = filter P xs"
  by (induction xs) (simp_all add: pick_def)

lemma pick_map_zip: "pick (map P ys) xs = map fst (filter (\<lambda>(x, y). P y) (zip xs ys))"
proof (induction ys arbitrary: xs)
  case Nil
  then show ?case by (simp add: pick_def)
next
  case (Cons y ys)
  then show ?case by (cases xs) (simp_all add: pick_def)
qed

lemma mask_and_map: "mask_and (map f xs) (map g xs) = map (\<lambda>x. f x \<and> g x) xs"
  by (induction xs) (simp_all add: mask_and_def)

lemma getattr_setitem_same: "getattr (setitem df n c) n = Inr c"
  by (simp add: getattr_def setitem_def update_conv')

lemma setitem_setitem: "setitem (setitem df n c) n c' = setitem df n c'"
  by (simp add: setitem_def)

lemma total_seconds_minutes:
  "div_scalar (map (map_option (\<lambda>ns. of_int ns / 1000000000)) (map2 sub_opt a b)) 60
     = duration_minutes a b"
  by (auto simp: div_scalar_def duration_minutes_def sub_opt_def split: option.splits)


lemma derive_duration_success:
  assumes "derive_duration (tr, df) = (Inr u, st)"
  shows "\<exists>durs. trip_durations df = Some durs \<and> st = (tr, setitem df ''duration'' (FloatCol durs))"
proof -
  from assms obtain a b where a: "getattr df ''dropOff_datetime'' = Inr a"
    and b: "getattr df ''pickup_datetime'' = Inr b"
    by (auto simp: derive_duration_def bindS_def liftE_def attr_o_def split: sum.splits)
  from assms a b obtain delta where d: "col_sub a b = Inr delta"
    by (auto simp: derive_duration_def bindS_def liftE_def attr_o_def split: sum.splits)
  from assms a b d obtain secs where s: "dt_total_seconds delta = Inr secs"
    and st: "st = (tr, setitem df ''duration'' (FloatCol (div_scalar secs 60)))"
    by (auto simp: derive_duration_def bindS_def liftE_def attr_o_def setitem_o_def
        getattr_setitem_same setitem_setitem split: sum.splits)
  from s obtain ns where delta: "delta = TimedeltaCol ns"
    and secs: "secs = map (map_option (\<lambda>ns. of_int ns / 1000000000)) ns"
    by (cases delta) auto
  from d delta consider
      (dt) x y where "a = DatetimeCol x" "b = DatetimeCol y" "ns = map2 sub_opt x y"
    | (td) x y where "a = TimedeltaCol x" "b = TimedeltaCol y" "ns = map2 sub_opt x y"
    by (cases a; cases b) (auto simp: bindE_def checked_def split: if_splits)
  then show ?thesis
  proof cases
    case dt
    have "div_scalar secs 60 = duration_minutes x y"
      unfolding secs dt(3) by (rule total_seconds_minutes)
    with a b st dt(1,2) show ?thesis
      by (simp add: trip_durations_def trip_times_def getattr_def split: option.splits)
  next
    case td
    have "div_scalar secs 60 = duration_minutes x y"
      unfolding secs td(3) by (rule total_seconds_minutes)
    with a b st td(1,2) show ?thesis
      by (simp add: trip_durations_def trip_times_def getattr_def split: option.splits)
  qed
qed

lemma filter_outliers_float:
  assumes "getattr df ''duration'' = Inr (FloatCol durs)"
  shows "filter_outliers df = Inr (select_rows df (map in_range durs))"
proof -
  have "mask_and (map (\<lambda>x. case x of None \<Rightarrow> False | Some r \<Rightarrow> 1 \<le> r) durs)
          (map (\<lambda>x. case x of None \<Rightarrow> False | Some r \<Rightarrow> r \<le> 60) durs) = map in_range durs"
    by (simp add: mask_and_map in_range_def split: option.splits)
  then show ?thesis
    using assms by (simp add: filter_outliers_def bindE_def)
qed

lemma prepare_features_unfold:
  "prepare_features categorical train (tr, df) =
     (case derive_duration (tr, df) of
        (Inl e, s) \<Rightarrow> (Inl e, s)
      | (Inr u, (tr', obj)) \<Rightarrow>
          (case filter_outliers obj of
             Inl e \<Rightarrow> (Inl e, (tr', obj))
           | Inr df' \<Rightarrow>
               (case bindE (getattr df' ''duration'') col_mean of
                  Inl e \<Rightarrow> (Inl e, (tr', obj))
                | Inr m \<Rightarrow>
                    (encode_categorical df' categorical,
                     (tr' @ [Log (if train then MeanTraining m else MeanValidation m)], obj)))))"
  by (simp add: prepare_features_def bindS_def liftE_def get_obj_def emit_o_def
      split: sum.splits prod.splits)


lemma length_pick_le: "length (pick keep xs) \<le> length (filter id keep)"
proof (induction keep arbitrary: xs)
  case Nil
  then show ?case by (simp add: pick_def)
next
  case (Cons k ks)
  show ?case
  proof (cases xs)
    case Nil
    then show ?thesis by (simp add: pick_def)
  next
    case (Cons y ys)
    with Cons.IH[of ys] show ?thesis by (simp add: pick_def)
  qed
qed

lemma pick_all_true: "length xs \<le> n \<Longrightarrow> pick (replicate n True) xs = xs"
proof (induction xs arbitrary: n)
  case Nil
  then show ?case by (simp add: pick_def)
next
  case (Cons x xs)
  then obtain m where "n = Suc m" by (cases n) auto
  with Cons show ?case by (simp add: pick_def)
qed

lemma col_len_pick_le: "col_len (col_pick keep c) \<le> length (filter id keep)"
  by (cases c) (simp_all add: length_pick_le)

lemma col_pick_all_true: "col_len c \<le> n \<Longrightarrow> col_pick (replicate n True) c = c"
  by (cases c) (simp_all add: pick_all_true)

lemma mapE_list_all2: "mapE f xs = Inr ys \<Longrightarrow> list_all2 (\<lambda>x y. f x = Inr y) xs ys"
proof (induction xs arbitrary: ys)
  case Nil
  then show ?case by simp
next
  case (Cons x xs)
  then show ?case by (auto simp: bindE_def split: sum.splits)
qed

lemma fillna_astype_int_length: "fillna_astype_int v c = Inr ints \<Longrightarrow> length ints = col_len c"
  by (cases c) (auto dest!: mapE_list_all2 list_all2_lengthD)

lemma fold_setitem_index:
  "index (fold (\<lambda>(name, c) d. setitem d name c) ps df) = index df"
  by (induction ps arbitrary: df) (auto simp: setitem_def)

lemma fold_setitem_other:
  "k \<notin> fst ` set ps \<Longrightarrow>
   map_of (columns (fold (\<lambda>(name, c) d. setitem d name c) ps df)) k = map_of (columns df) k"
  by (induction ps arbitrary: df) (auto simp: setitem_def update_conv')

lemma fold_setitem_in:
  "k \<in> fst ` set ps \<Longrightarrow>
   \<exists>c. (k, c) \<in> set ps \<and> map_of (columns (fold (\<lambda>(name, c) d. setitem d name c) ps df)) k = Some c"
proof (induction ps rule: rev_induct)
  case Nil
  then show ?case by simp
next
  case (snoc p ps)
  obtain n c where p: "p = (n, c)" by (cases p)
  show ?case
  proof (cases "k = n")
    case True
    then show ?thesis by (auto simp: p setitem_def update_conv')
  next
    case False
    with snoc.prems p have "k \<in> fst ` set ps" by auto
    from snoc.IH[OF this] False show ?thesis by (auto simp: p setitem_def update_conv')
  qed
qed

lemma update_entries: "(n, c) \<in> set (AList.update k v al) \<Longrightarrow> (n, c) = (k, v) \<or> (n, c) \<in> set al"
  by (induction al) (auto split: if_splits)

lemma fold_setitem_entries:
  "(n, c) \<in> set (columns (fold (\<lambda>(name, c) d. setitem d name c) ps df)) \<Longrightarrow>
   (n, c) \<in> set (columns df) \<or> (n, c) \<in> set ps"
proof (induction ps arbitrary: df)
  case Nil
  then show ?case by simp
next
  case (Cons p ps)
  obtain k v where p: "p = (k, v)" by (cases p)
  from Cons.prems have "(n, c) \<in> set (columns (fold (\<lambda>(name, c) d. setitem d name c) ps (setitem df k v)))"
    by (simp add: p)
  from Cons.IH[OF this] show ?case
    by (auto simp: p setitem_def dest: update_entries)
qed

lemma encode_categorical_success:
  assumes "encode_categorical df categorical = Inr out"
  shows "index out = index df"
    and "\<And>n. n \<notin> set categorical \<Longrightarrow> map_of (columns out) n = map_of (columns df) n"
    and "\<And>n. n \<in> set categorical \<Longrightarrow> \<exists>c'. encoded df n c' \<and> map_of (columns out) n = Some c'"
    and "\<And>n c'. (n, c') \<in> set (columns out) \<Longrightarrow> (n, c') \<in> set (columns df) \<or> encoded df n c'"
proof -
  from assms obtain sub ints where sub: "getitems df categorical = Inr sub"
    and ints: "mapE (fillna_astype_int (-1)) sub = Inr ints"
    and out: "out = setitems df categorical (map astype_str ints)"
    by (auto simp: encode_categorical_def bindE_def split: sum.splits if_splits)
  let ?ps = "zip categorical (map astype_str ints)"
  from sub have l1: "list_all2 (\<lambda>n c. getitem df n = Inr c) categorical sub"
    unfolding getitems_def by (rule mapE_list_all2)
  from ints have l2: "list_all2 (\<lambda>c i. fillna_astype_int (-1) c = Inr i) sub ints"
    by (rule mapE_list_all2)
  have len: "length categorical = length ints"
    using list_all2_lengthD[OF l1] list_all2_lengthD[OF l2] by simp
  have enc: "encoded df n c'" if "(n, c') \<in> set ?ps" for n c'
  proof -
    from that obtain j where j: "j < length categorical" "n = categorical ! j"
      "c' = astype_str (ints ! j)"
      using len by (auto simp: in_set_zip)
    from l1 j have "getitem df n = Inr (sub ! j)"
      by (auto simp: list_all2_conv_all_nth)
    moreover from l2 l1 j have "fillna_astype_int (-1) (sub ! j) = Inr (ints ! j)"
      by (auto simp: list_all2_conv_all_nth)
    ultimately show ?thesis
      using j by (auto simp: encoded_def getitem_def split: option.splits)
  qed
  have fst_ps: "fst ` set ?ps = set categorical"
    using len by (metis length_map map_fst_zip set_map)
  show "index out = index df"
    by (simp add: out setitems_def fold_setitem_index)
  show "map_of (columns out) n = map_of (columns df) n" if "n \<notin> set categorical" for n
    using that fst_ps by (simp add: out setitems_def fold_setitem_other)
  show "\<exists>c'. encoded df n c' \<and> map_of (columns out) n = Some c'" if "n \<in> set categorical" for n
  proof -
    from that fst_ps have "n \<in> fst ` set ?ps" by simp
    from fold_setitem_in[OF this, of df] enc show ?thesis
      by (auto simp: out setitems_def)
  qed
  show "(n, c') \<in> set (columns df) \<or> encoded df n c'" if "(n, c') \<in> set (columns out)" for n c'
    using fold_setitem_entries[of n c' ?ps df] that enc by (auto simp: out setitems_def)
qed

lemma select_rows_lookup:
  "map_of (columns (select_rows df keep)) n = map_option (col_pick keep) (map_of (columns df) n)"
  by (simp add: select_rows_def map_of_map)

text \<open>What a successful call of the Feature Preparer has done.\<close>

lemma prepare_features_success:
  assumes "prepare_features categorical train (tr, df) = (Inr out, st)"
  shows "\<exists>durs m. trip_durations df = Some durs
    \<and> st = (tr @ [Log (if train then MeanTraining m else MeanValidation m)],
            setitem df ''duration'' (FloatCol durs))
    \<and> encode_categorical
        (select_rows (setitem df ''duration'' (FloatCol durs)) (map in_range durs)) categorical
        = Inr out"
proof -
  obtain r s where dd: "derive_duration (tr, df) = (r, s)" by (cases "derive_duration (tr, df)")
  with assms obtain u where r: "r = Inr u"
    by (cases r) (auto simp: prepare_features_unfold)
  from derive_duration_success[OF dd[unfolded r]] obtain durs
    where durs: "trip_durations df = Some durs"
      and s: "s = (tr, setitem df ''duration'' (FloatCol durs))" by blast
  have fo: "filter_outliers (setitem df ''duration'' (FloatCol durs))
      = Inr (select_rows (setitem df ''duration'' (FloatCol durs)) (map in_range durs))"
    by (rule filter_outliers_float) (rule getattr_setitem_same)
  from assms show ?thesis
    by (auto simp: prepare_features_unfold dd r s fo durs split: sum.splits)
qed

section \<open>The example table, step by step\<close>

lemma example_derive:
  "derive_duration ([], example_trips) = (Inr (), ([], example_after))"
  by (simp add: derive_duration_def bindS_def liftE_def attr_o_def setitem_o_def getattr_def
      setitem_def example_trips_def example_after_def sub_opt_def div_scalar_def bindE_def
      checked_def is_time_value_def)

lemma example_filter: "filter_outliers example_after = Inr example_filtered"
  by (simp add: filter_outliers_def bindE_def getattr_def example_after_def mask_and_def
      select_rows_def pick_def example_filtered_def)

lemma cast_examples:
  "astype_int64 (- 1) = - 1" "astype_int64 7 = 7" "astype_int64 3 = 3"
  "astype_int64 (79 / 10) = 7" "astype_int64 (- (5 / 2)) = - 2"
  by (simp_all add: astype_int64_def in_int64_def trunc_int_def floor_eq_iff ceiling_eq_iff)

lemma str_examples:
  "str_int (- 1) = ''-1''" "str_int 7 = ''7''" "str_int (- 2) = ''-2''"
  by (simp_all add: str_int_def str_nat.simps digit_char_def)

lemma example_encode: "encode_categorical example_filtered categorical_fields = Inr example_prepared"
  by (simp add: encode_categorical_def bindE_def getitems_def getitem_def categorical_fields_def
      setitems_def setitem_def astype_str_def cast_examples str_examples example_prepared_def
      example_filtered_def)

lemma example_mean: "bindE (getattr example_filtered ''duration'') col_mean = Inr (Some 35)"
  by (simp add: bindE_def getattr_def mean_of_def example_filtered_def)

lemma example_run:
  "prepare_features categorical_fields True ([], example_trips)
     = (Inr example_prepared, ([Log (MeanTraining (Some 35))], example_after))"
  by (simp add: prepare_features_unfold example_derive example_filter example_encode example_mean)

lemma example_durations:
  "trip_durations example_trips = Some [Some 10, Some (1 / 2), Some 60, Some 61, None]"
  by (simp add: trip_durations_def trip_times_def example_trips_def duration_minutes_def)

lemma filtered_lookup:
  assumes "n \<noteq> ''duration''"
  shows "map_of (columns (select_rows (setitem df ''duration'' d) keep)) n
    = map_option (col_pick keep) (map_of (columns df) n)"
  using assms by (simp add: select_rows_lookup setitem_def update_conv')

lemma filtered_duration:
  "map_of (columns (select_rows (setitem df ''duration'' (FloatCol durs)) (map in_range durs)))
     ''duration'' = Some (FloatCol (filter in_range durs))"
  by (simp add: select_rows_lookup setitem_def update_conv' pick_map_filter)

section \<open>Feature Preparer: duration and the outlier filter\<close>

text \<open>
  Claim C3. When \<open>prepare_features\<close> returns, the duration it has derived is the drop-off
  time minus the pickup time in minutes, row by row; the table returned holds exactly the
  input rows whose duration \<open>d\<close> satisfies \<open>1 \<le> d \<le> 60\<close>, in their order: its duration
  column is the list of durations in range, and its index is the index of the input
  restricted to the rows in range. A row with a duration out of range, or with none, is
  absent. The categorical field list is the pipeline's, which does not name the duration.
\<close>

theorem prepare_features_duration_filter:
  assumes "prepare_features categorical train (tr, df) = (Inr out, st)"
    and "''duration'' \<notin> set categorical"
  shows "\<exists>durs. trip_durations df = Some durs
    \<and> getattr (snd st) ''duration'' = Inr (FloatCol durs)
    \<and> getattr out ''duration'' = Inr (FloatCol (filter in_range durs))
    \<and> index out = map fst (filter (\<lambda>(i, d). in_range d) (zip (index df) durs))"
proof -
  from prepare_features_success[OF assms(1)] obtain durs m where
    durs: "trip_durations df = Some durs"
    and st: "st = (tr @ [Log (if train then MeanTraining m else MeanValidation m)],
            setitem df ''duration'' (FloatCol durs))"
    and enc: "encode_categorical
        (select_rows (setitem df ''duration'' (FloatCol durs)) (map in_range durs)) categorical
        = Inr out" by blast
  have "getattr (snd st) ''duration'' = Inr (FloatCol durs)"
    by (simp add: st getattr_setitem_same)
  moreover have "getattr out ''duration'' = Inr (FloatCol (filter in_range durs))"
    using encode_categorical_success(2)[OF enc assms(2)]
    by (simp add: getattr_def filtered_duration)
  moreover have "index out = map fst (filter (\<lambda>(i, d). in_range d) (zip (index df) durs))"
    using encode_categorical_success(1)[OF enc]
    by (simp add: select_rows_def setitem_def pick_map_zip)
  ultimately show ?thesis using durs by blast
qed

text \<open>On the example table, rows 0 and 2 (10 and 60 minutes) are the ones kept.\<close>

theorem prepare_features_duration_filter_witness:
  "prepare_features categorical_fields True ([], example_trips)
     = (Inr example_prepared, ([Log (MeanTraining (Some 35))], example_after))
   \<and> ''duration'' \<notin> set categorical_fields
   \<and> getattr example_prepared ''duration'' = Inr (FloatCol [Some 10, Some 60])
   \<and> index example_prepared = [0, 2]"
proof -
  have c: "''duration'' \<notin> set categorical_fields" by (simp add: categorical_fields_def)
  have i: "index example_trips = [0, 1, 2, 3, 4]" by (simp add: example_trips_def)
  from prepare_features_duration_filter[OF example_run c]
  have "getattr example_prepared ''duration''
        = Inr (FloatCol (filter in_range [Some 10, Some (1 / 2), Some 60, Some 61, None]))
      \<and> index example_prepared = map fst (filter (\<lambda>(i, d). in_range d)
          (zip [0, 1, 2, 3, 4] [Some 10, Some (1 / 2), Some 60, Some 61, None]))"
    by (simp add: example_durations i)
  then show ?thesis
    using example_run c by (simp add: in_range_def)
qed

text \<open>
  Claim C6. The outlier filter of line 42, applied again to a table that
  \<open>prepare_features\<close> has returned, returns that same table: same index, same columns, no
  row removed.
\<close>

theorem filter_outliers_idempotent:
  assumes "prepare_features categorical train (tr, df) = (Inr out, st)"
    and "''duration'' \<notin> set categorical"
  shows "filter_outliers out = Inr out"
proof -
  from prepare_features_success[OF assms(1)] obtain durs where
    enc: "encode_categorical
        (select_rows (setitem df ''duration'' (FloatCol durs)) (map in_range durs)) categorical
        = Inr out" by blast
  let ?df2 = "setitem df ''duration'' (FloatCol durs)"
  let ?keep = "map in_range durs"
  let ?df3 = "select_rows ?df2 ?keep"
  let ?kept = "filter in_range durs"
  let ?m = "length ?kept"
  have cnt: "length (filter id ?keep) = ?m"
    by (simp add: filter_map comp_def)
  have dur: "getattr out ''duration'' = Inr (FloatCol ?kept)"
    using encode_categorical_success(2)[OF enc assms(2)]
    by (simp add: getattr_def filtered_duration)
  have keep': "map in_range ?kept = replicate ?m True"
    by (induction durs) simp_all
  have fo: "filter_outliers out = Inr (select_rows out (replicate ?m True))"
    using filter_outliers_float[OF dur] by (simp add: keep')
  have len3: "col_len c \<le> ?m" if "(n, c) \<in> set (columns ?df3)" for n c
  proof -
    from that obtain c0 where "c = col_pick ?keep c0"
      by (auto simp: select_rows_def)
    then show ?thesis using col_len_pick_le[of ?keep c0] cnt by simp
  qed
  have len: "col_len c \<le> ?m" if "(n, c) \<in> set (columns out)" for n c
  proof -
    from encode_categorical_success(4)[OF enc that]
    show ?thesis
    proof
      assume "(n, c) \<in> set (columns ?df3)"
      then show ?thesis by (rule len3)
    next
      assume "encoded ?df3 n c"
      then obtain c0 ints where c0: "map_of (columns ?df3) n = Some c0"
        and ints: "fillna_astype_int (- 1) c0 = Inr ints" and c: "c = astype_str ints"
        by (auto simp: encoded_def)
      from c0 have "(n, c0) \<in> set (columns ?df3)" by (rule map_of_SomeD)
      then have "col_len c0 \<le> ?m" by (rule len3)
      with fillna_astype_int_length[OF ints] c show ?thesis
        by (simp add: astype_str_def)
    qed
  qed
  have idx: "pick (replicate ?m True) (index out) = index out"
  proof (rule pick_all_true)
    have "index out = pick ?keep (index df)"
      using encode_categorical_success(1)[OF enc] by (simp add: select_rows_def setitem_def)
    then show "length (index out) \<le> ?m"
      using length_pick_le[of ?keep "index df"] cnt by simp
  qed
  have cols: "map (\<lambda>(name, c). (name, col_pick (replicate ?m True) c)) (columns out) = columns out"
    by (rule map_idI) (auto simp: col_pick_all_true dest: len)
  have "select_rows out (replicate ?m True) = out"
    by (simp add: select_rows_def idx cols)
  with fo show ?thesis by simp
qed

text \<open>The filter leaves the prepared example table as it is.\<close>

theorem filter_outliers_idempotent_witness:
  "prepare_features categorical_fields True ([], example_trips)
     = (Inr example_prepared, ([Log (MeanTraining (Some 35))], example_after))
   \<and> ''duration'' \<notin> set categorical_fields
   \<and> filter_outliers example_prepared = Inr example_prepared"
proof -
  have c: "''duration'' \<notin> set categorical_fields" by (simp add: categorical_fields_def)
  from filter_outliers_idempotent[OF example_run c]
  show ?thesis using example_run c by simp
qed

lemma getattr_encoded_float:
  assumes enc: "encode_categorical
        (select_rows (setitem df ''duration'' d) keep) categorical = Inr out"
    and c: "c \<in> set categorical" "c \<noteq> ''duration''"
    and col: "getattr df c = Inr (FloatCol ys)"
  shows "getattr out c = Inr (StrCol (map
           (\<lambda>y. str_int (astype_int64 (case y of None \<Rightarrow> - 1 | Some r \<Rightarrow> r)))
           (pick keep ys)))"
proof -
  from col have "map_of (columns df) c = Some (FloatCol ys)"
    by (simp add: getattr_def split: option.splits)
  then have l: "map_of (columns (select_rows (setitem df ''duration'' d) keep)) c
      = Some (FloatCol (pick keep ys))"
    using c(2) by (simp add: filtered_lookup)
  from encode_categorical_success(3)[OF enc c(1)] obtain c' where
    "encoded (select_rows (setitem df ''duration'' d) keep) c c'"
    "map_of (columns out) c = Some c'" by blast
  with l show ?thesis
    by (auto simp: encoded_def getattr_def astype_str_def split: option.splits)
qed

lemma getattr_encoded_int:
  assumes enc: "encode_categorical
        (select_rows (setitem df ''duration'' d) keep) categorical = Inr out"
    and c: "c \<in> set categorical" "c \<noteq> ''duration''"
    and col: "getattr df c = Inr (IntCol ys)"
  shows "getattr out c = Inr (StrCol (map str_int (pick keep ys)))"
proof -
  from col have "map_of (columns df) c = Some (IntCol ys)"
    by (simp add: getattr_def split: option.splits)
  then have l: "map_of (columns (select_rows (setitem df ''duration'' d) keep)) c
      = Some (IntCol (pick keep ys))"
    using c(2) by (simp add: filtered_lookup)
  from encode_categorical_success(3)[OF enc c(1)] obtain c' where
    "encoded (select_rows (setitem df ''duration'' d) keep) c c'"
    "map_of (columns out) c = Some c'" by blast
  with l show ?thesis
    by (auto simp: encoded_def getattr_def astype_str_def)
qed

lemma str_neg1: "str_int (astype_int64 (- 1)) = ''-1''"
  by (simp add: cast_examples str_examples)

section \<open>Feature Preparer: the categorical columns\<close>

text \<open>
  Claim C4. When \<open>prepare_features\<close> returns, every field of the categorical field list
  is a string column of the table returned, so string-typed in every row; and where the
  input column holds a missing value in a row that is kept, the string is \<^verbatim>\<open>-1\<close>.
\<close>

theorem prepare_features_categorical_strings:
  assumes "prepare_features categorical train (tr, df) = (Inr out, st)"
    and "c \<in> set categorical"
  shows "\<exists>xs durs. getattr out c = Inr (StrCol xs) \<and> trip_durations df = Some durs \<and>
    (\<forall>ys. c \<noteq> ''duration'' \<longrightarrow> getattr df c = Inr (FloatCol ys) \<longrightarrow>
       list_all2 (\<lambda>y x. y = None \<longrightarrow> x = ''-1'') (pick (map in_range durs) ys) xs)"
proof -
  from prepare_features_success[OF assms(1)] obtain durs where
    durs: "trip_durations df = Some durs"
    and enc: "encode_categorical
        (select_rows (setitem df ''duration'' (FloatCol durs)) (map in_range durs)) categorical
        = Inr out" by blast
  from encode_categorical_success(3)[OF enc assms(2)] obtain xs where
    xs: "getattr out c = Inr (StrCol xs)"
    by (auto simp: encoded_def getattr_def astype_str_def)
  have "list_all2 (\<lambda>y x. y = None \<longrightarrow> x = ''-1'') (pick (map in_range durs) ys) xs"
    if "c \<noteq> ''duration''" "getattr df c = Inr (FloatCol ys)" for ys
  proof -
    from getattr_encoded_float[OF enc assms(2) that] xs
    have "xs = map (\<lambda>y. str_int (astype_int64 (case y of None \<Rightarrow> - 1 | Some r \<Rightarrow> r)))
           (pick (map in_range durs) ys)" by simp
    then show ?thesis
      by (simp add: list_all2_map2 list_all2_same str_neg1)
  qed
  with xs durs show ?thesis by blast
qed

text \<open>On the example table, the missing pickup location of row 0 becomes \<^verbatim>\<open>-1\<close>.\<close>

theorem prepare_features_categorical_strings_witness:
  "prepare_features categorical_fields True ([], example_trips)
     = (Inr example_prepared, ([Log (MeanTraining (Some 35))], example_after))
   \<and> ''PUlocationID'' \<in> set categorical_fields
   \<and> getattr example_trips ''PUlocationID'' = Inr (FloatCol [None, Some 3, Some 7, None, Some 1])
   \<and> (\<exists>xs. getattr example_prepared ''PUlocationID'' = Inr (StrCol xs)
        \<and> list_all2 (\<lambda>y x. y = None \<longrightarrow> x = ''-1'') [None, Some (7::rat)] xs)"
proof -
  have c: "''PUlocationID'' \<in> set categorical_fields" by (simp add: categorical_fields_def)
  have g: "getattr example_trips ''PUlocationID'' = Inr (FloatCol [None, Some 3, Some 7, None, Some 1])"
    by (simp add: getattr_def example_trips_def)
  from prepare_features_categorical_strings[OF example_run c] g
  have "\<exists>xs. getattr example_prepared ''PUlocationID'' = Inr (StrCol xs)
        \<and> list_all2 (\<lambda>y x. y = None \<longrightarrow> x = ''-1'') [None, Some (7::rat)] xs"
    by (auto simp: example_durations pick_def in_range_def)
  then show ?thesis
    using example_run c g by simp
qed


section \<open>Feature Preparer: what the call does to the table it is given\<close>

text \<open>
  Claim C5, as the code has it. When \<open>prepare_features\<close> returns, the table object the
  caller passed has been changed in one column: lines 40 and 41 have written the derived
  duration of every row into its \<^verbatim>\<open>duration\<close> column, added at the end if the table had
  none. Its index, its rows and every other column, the categorical ones included, are as
  before the call; the filter and the string encoding act on the copy that is returned.
\<close>

theorem prepare_features_writes_duration:
  assumes "prepare_features categorical train (tr, df) = (Inr out, st)"
  shows "\<exists>durs. trip_durations df = Some durs
    \<and> snd st = setitem df ''duration'' (FloatCol durs)
    \<and> index (snd st) = index df
    \<and> (\<forall>n. n \<noteq> ''duration'' \<longrightarrow> getattr (snd st) n = getattr df n)"
proof -
  from prepare_features_success[OF assms] obtain durs where
    durs: "trip_durations df = Some durs"
    and st: "snd st = setitem df ''duration'' (FloatCol durs)" by auto
  have "index (snd st) = index df"
    by (simp add: st setitem_def)
  moreover have "\<forall>n. n \<noteq> ''duration'' \<longrightarrow> getattr (snd st) n = getattr df n"
    by (simp add: st setitem_def getattr_def update_conv')
  ultimately show ?thesis using durs st by blast
qed

text \<open>The example table after the call is the example table with a duration column.\<close>

theorem prepare_features_writes_duration_witness:
  "prepare_features categorical_fields True ([], example_trips)
     = (Inr example_prepared, ([Log (MeanTraining (Some 35))], example_after))
   \<and> example_after = setitem example_trips ''duration''
        (FloatCol [Some 10, Some (1 / 2), Some 60, Some 61, None])
   \<and> getattr example_after ''PUlocationID'' = getattr example_trips ''PUlocationID''"
proof -
  from prepare_features_writes_duration[OF example_run]
  show ?thesis using example_run by (auto simp: example_durations)
qed

text \<open>
  Claim C5 as stated fails on the example table: it has no \<^verbatim>\<open>duration\<close> column before the
  call and has one after it.
\<close>

theorem prepare_features_input_unchanged_counterexample:
  "fst (prepare_features categorical_fields True ([], example_trips)) = Inr example_prepared
   \<and> snd (snd (prepare_features categorical_fields True ([], example_trips))) \<noteq> example_trips
   \<and> getattr example_trips ''duration'' = Inl AttributeError
   \<and> getattr (snd (snd (prepare_features categorical_fields True ([], example_trips)))) ''duration''
       = Inr (FloatCol [Some 10, Some (1 / 2), Some 60, Some 61, None])"
  unfolding example_run fst_conv snd_conv
  by (simp add: example_after_def example_trips_def getattr_def)

section \<open>Feature Preparer: the train flag\<close>

text \<open>
  Claim C9. For every table and categorical field list, \<open>prepare_features\<close> called with
  the flag true and with the flag false has the same outcome (the same table returned, or
  the same exception) and leaves the caller's table in the same state; the two logs are
  equal up to the phase named in the line that reports the mean duration.
\<close>

theorem prepare_features_train_flag:
  "fst (prepare_features categorical True s) = fst (prepare_features categorical False s)
   \<and> snd (snd (prepare_features categorical True s))
       = snd (snd (prepare_features categorical False s))
   \<and> map phase_blind (fst (snd (prepare_features categorical True s)))
       = map phase_blind (fst (snd (prepare_features categorical False s)))"
proof -
  obtain tr df where s: "s = (tr, df)" by (cases s)
  show ?thesis
    unfolding s prepare_features_unfold
    by (simp split: prod.splits sum.splits)
qed

section \<open>Feature Preparer: the integer cast\<close>

lemma digit_char_digit: "n < 10 \<Longrightarrow> is_digit (digit_char n)"
  unfolding is_digit_def digit_char_def by (rule nth_mem) simp

lemma str_nat_digits: "list_all is_digit (str_nat n)"
proof (induction n rule: str_nat.induct)
  case (1 n)
  show ?case
  proof (cases "n < 10")
    case True
    then show ?thesis by (subst str_nat.simps) (simp add: digit_char_digit)
  next
    case False
    with 1 show ?thesis by (subst str_nat.simps) (simp add: digit_char_digit)
  qed
qed

lemma str_int_no_point: "CHR ''.'' \<notin> set (str_int k)"
proof -
  have "\<not> is_digit (CHR ''.'')" by (simp add: is_digit_def)
  with str_nat_digits show ?thesis
    by (auto simp: str_int_def list_all_iff)
qed

lemma trunc_int_toward_zero:
  "\<bar>of_int (trunc_int r)\<bar> \<le> \<bar>r\<bar> \<and> \<bar>r - of_int (trunc_int r)\<bar> < 1"
  unfolding trunc_int_def by (cases "0 \<le> r") (simp_all, linarith+)

lemma trunc_int_of_int: "trunc_int (of_int n) = n"
  by (simp add: trunc_int_def)

lemma astype_int64_fits: "in_int64 (astype_int64 r)"
  by (simp add: astype_int64_def in_int64_def)

lemma astype_int64_in_range: "in_int64 (trunc_int r) \<Longrightarrow> astype_int64 r = trunc_int r"
  by (simp add: astype_int64_def)

lemma astype_int64_of_int: "in_int64 n \<Longrightarrow> astype_int64 (of_int n) = n"
  by (simp add: astype_int64_def trunc_int_of_int)

text \<open>
  Claim C10. When \<open>prepare_features\<close> returns, a categorical field that is a float
  column in the input is, in the table returned, the string of the integer that the cast to
  the 64-bit integer gives for each kept value, a missing one taken as \<open>-1\<close>; an integer
  column is the string of each kept value. Where the integer part of the value fits 64
  bits, as it does for every float that has a fraction, the cast drops the fraction toward
  zero, and it keeps a whole number, so \<open>7.0\<close> becomes \<^verbatim>\<open>7\<close>. The string of an integer has
  no decimal point, so it is never the text of a float.
\<close>

theorem prepare_features_integer_cast:
  assumes "prepare_features categorical train (tr, df) = (Inr out, st)"
    and "c \<in> set categorical" and "c \<noteq> ''duration''"
    and "trip_durations df = Some durs"
  shows "(\<forall>ys. getattr df c = Inr (FloatCol ys) \<longrightarrow>
            getattr out c = Inr (StrCol (map
              (\<lambda>y. str_int (astype_int64 (case y of None \<Rightarrow> - 1 | Some r \<Rightarrow> r)))
              (pick (map in_range durs) ys))))
    \<and> (\<forall>ys. getattr df c = Inr (IntCol ys) \<longrightarrow>
            getattr out c = Inr (StrCol (map str_int (pick (map in_range durs) ys))))
    \<and> (\<forall>r. in_int64 (astype_int64 r))
    \<and> (\<forall>r. in_int64 (trunc_int r) \<longrightarrow>
            astype_int64 r = trunc_int r
          \<and> \<bar>of_int (astype_int64 r)\<bar> \<le> \<bar>r\<bar> \<and> \<bar>r - of_int (astype_int64 r)\<bar> < 1)
    \<and> (\<forall>n. in_int64 n \<longrightarrow> astype_int64 (of_int n) = n)
    \<and> (\<forall>k. CHR ''.'' \<notin> set (str_int k))"
proof -
  from prepare_features_success[OF assms(1)] assms(4) have
    enc: "encode_categorical
        (select_rows (setitem df ''duration'' (FloatCol durs)) (map in_range durs)) categorical
        = Inr out" by auto
  have t: "astype_int64 r = trunc_int r
      \<and> \<bar>of_int (astype_int64 r)\<bar> \<le> \<bar>r\<bar> \<and> \<bar>r - of_int (astype_int64 r)\<bar> < 1"
    if "in_int64 (trunc_int r)" for r
    using trunc_int_toward_zero[of r] by (simp add: astype_int64_in_range[OF that])
  show ?thesis
    using getattr_encoded_float[OF enc assms(2,3)] getattr_encoded_int[OF enc assms(2,3)]
      t astype_int64_fits astype_int64_of_int str_int_no_point
    by blast
qed

text \<open>
  On the example table the drop-off locations \<open>7.9\<close> and \<open>-2.5\<close> of the kept rows become
  \<^verbatim>\<open>7\<close> and \<^verbatim>\<open>-2\<close>, and \<open>7.0\<close> is cast to 7. A value beyond the 64-bit range, such as
  \<open>10 ^ 19\<close>, is cast to \<open>- 2 ^ 63\<close>.
\<close>

theorem prepare_features_integer_cast_witness:
  "prepare_features categorical_fields True ([], example_trips)
     = (Inr example_prepared, ([Log (MeanTraining (Some 35))], example_after))
   \<and> ''DOlocationID'' \<in> set categorical_fields
   \<and> trip_durations example_trips = Some [Some 10, Some (1 / 2), Some 60, Some 61, None]
   \<and> getattr example_trips ''DOlocationID''
       = Inr (FloatCol [Some (79 / 10), Some 2, Some (- (5 / 2)), Some 4, None])
   \<and> getattr example_prepared ''DOlocationID'' = Inr (StrCol [''7'', ''-2''])
   \<and> in_int64 (trunc_int 7) \<and> str_int (astype_int64 7) = ''7''
   \<and> str_int (astype_int64 10000000000000000000) = ''-9223372036854775808''"
proof -
  have c: "''DOlocationID'' \<in> set categorical_fields" "''DOlocationID'' \<noteq> ''duration''"
    by (simp_all add: categorical_fields_def)
  have g: "getattr example_trips ''DOlocationID''
       = Inr (FloatCol [Some (79 / 10), Some 2, Some (- (5 / 2)), Some 4, None])"
    by (simp add: getattr_def example_trips_def)
  have p: "pick (map in_range [Some 10, Some (1 / 2), Some 60, Some 61, None])
      [Some (79 / 10), Some 2, Some (- (5 / 2)), Some 4, None] = [Some (79 / 10), Some (- (5 / 2 :: rat))]"
    by (simp add: pick_def in_range_def)
  have f: "in_int64 (trunc_int 7)"
    by (simp add: in_int64_def trunc_int_def)
  have big: "str_int (astype_int64 10000000000000000000) = ''-9223372036854775808''"
    by (simp add: astype_int64_def in_int64_def trunc_int_def str_int_def str_nat.simps
        digit_char_def)
  from prepare_features_integer_cast[OF example_run c example_durations] g
  have "getattr example_prepared ''DOlocationID'' = Inr (StrCol (map
              (\<lambda>y. str_int (astype_int64 (case y of None \<Rightarrow> - 1 | Some r \<Rightarrow> r)))
              [Some (79 / 10), Some (- (5 / 2))]))"
    by (simp only: p)
  then show ?thesis
    using example_run c g example_durations f big by (simp add: cast_examples str_examples)
qed

section \<open>Evaluator: what a call leaves behind\<close>

text \<open>
  Claim C7. For every table, field list, vectorizer and model, and whatever the outcome of
  \<open>run_model\<close>, the vectorizer and the model are after the call what they were before it,
  the learned feature names among them: the call only transforms and predicts. Its result
  carries no value (the unit type, Python's \<^verbatim>\<open>None\<close>): when it returns it has appended to
  the log one line, the validation error, and when it raises it has logged nothing.
\<close>

theorem run_model_observes_only:
  "snd (snd (run_model env df categorical (tr, dv, lr))) = (dv, lr)
   \<and> (case fst (run_model env df categorical (tr, dv, lr)) of
         Inl e \<Rightarrow> fst (snd (run_model env df categorical (tr, dv, lr))) = tr
       | Inr u \<Rightarrow> \<exists>mse. fst (snd (run_model env df categorical (tr, dv, lr)))
                     = tr @ [Log (MSEValidation mse)])"
  by (simp add: run_model_def bindS_def liftE_def transform_o_def predict_o_def emit_o_def
      returnS_def dv_transform_def lr_predict_def
      split: sum.splits prod.splits option.splits if_splits)

lemma example_records:
  "to_dict_records example_prepared categorical_fields = Inr
     [[(''PUlocationID'', VStr ''-1''), (''DOlocationID'', VStr ''7'')],
      [(''PUlocationID'', VStr ''7''), (''DOlocationID'', VStr ''-2'')]]"
  by (simp add: to_dict_records_def getitems_def getitem_def bindE_def example_prepared_def
      categorical_fields_def add_column_def)

lemma example_transform:
  "dv_transform example_dv
     [[(''PUlocationID'', VStr ''-1''), (''DOlocationID'', VStr ''7'')],
      [(''PUlocationID'', VStr ''7''), (''DOlocationID'', VStr ''-2'')]]
   = (Inr \<lparr>n_cols = 4, entries = [[(2, Some 1), (1, Some 1)], [(3, Some 1), (0, Some 1)]]\<rparr>,
      example_dv)"
  by (simp add: dv_transform_def example_dv_def bindE_def sample_entries_def)

lemma example_target: "getattr example_prepared ''duration'' = Inr (FloatCol [Some 10, Some 60])"
  by (simp add: getattr_def example_prepared_def)

lemma example_params: "params example_lr = Some ([0, 0, 0, 0], 35)"
  by (simp add: example_lr_def)

lemma example_collaborators:
  "decision_function example_env = constant_prediction"
  "root_mean_squared_error example_env = zero_error"
  "least_squares example_env = zero_fit"
  "read_parquet example_env p = Inr example_trips"
  by (simp_all add: example_env_def)

lemma example_evaluation:
  "run_model example_env example_prepared categorical_fields ([], example_dv, example_lr)
     = (Inr (), ([Log (MSEValidation 0)], example_dv, example_lr))"
  by (simp add: run_model_def bindS_def liftE_def transform_o_def predict_o_def emit_o_def
      returnS_def example_records example_transform lr_predict_def example_params
      example_collaborators constant_prediction_def zero_error_def example_target)

text \<open>
  On the prepared example table, with a fitted vectorizer and model, the call returns and
  leaves both as they were.
\<close>

theorem run_model_observes_only_witness:
  "fst (run_model example_env example_prepared categorical_fields ([], example_dv, example_lr))
     = Inr ()
   \<and> snd (snd (run_model example_env example_prepared categorical_fields
        ([], example_dv, example_lr))) = (example_dv, example_lr)
   \<and> fst (snd (run_model example_env example_prepared categorical_fields
        ([], example_dv, example_lr))) = [Log (MSEValidation 0)]"
  using run_model_observes_only[of example_env example_prepared categorical_fields
      "[]" example_dv example_lr]
  by (simp add: example_evaluation)

section \<open>Pipeline Driver: the trace of each stage\<close>





lemma read_data_run: "read_data env p tr = (read_parquet env p, tr @ [ReadParquet p])"
  by (simp add: read_data_def bindS_def emit_def liftE_def)



lemma main_by_lines:
  "main env date_arg tr0 =
     (case get_paths (run_date env date_arg) of
        Inl e \<Rightarrow> (Inl e, tr0)
      | Inr (train_path, val_path) \<Rightarrow>
          (fst (evaluation_run env
                 (fst (persist_run env (run_date env date_arg) (training_run env train_path)))
                 (fst (validation_run env val_path))),
           tr0 @ interleave (schedule env)
                   (snd (persist_run env (run_date env date_arg) (training_run env train_path)))
                   (snd (validation_run env val_path))
               @ snd (evaluation_run env
                 (fst (persist_run env (run_date env date_arg) (training_run env train_path)))
                 (fst (validation_run env val_path)))))"
  by (simp add: main_def run_date_def Let_def training_run_def validation_run_def
      persist_run_def evaluation_run_def split: sum.splits prod.splits)





section \<open>Two runs of the pipeline, step by step\<close>

lemma example_paths:
  "get_paths ''2022-01-15''
     = Inr (''./data/fhv_tripdata_2021-11.parquet'', ''./data/fhv_tripdata_2021-12.parquet'')"
  by (simp add: get_paths_def strptime_def match_format_def year_re_def month_re_def day_re_def
      lit_def py_int_def strip_def py_isspace_def is_digit_def dec_val_def digit_val_def
      mk_date_def days_in_month_def add_months_def bindE_def dataset_path_def str_int_def
      fmt_02d_def str_nat.simps digit_char_def isleap_def)

lemma example_derive_any:
  "derive_duration (tr, example_trips) = (Inr (), (tr, example_after))"
  by (simp add: derive_duration_def bindS_def liftE_def attr_o_def setitem_o_def getattr_def
      setitem_def example_trips_def example_after_def sub_opt_def div_scalar_def bindE_def
      checked_def is_time_value_def)

lemma example_run_any:
  "prepare_features [''PUlocationID'', ''DOlocationID''] train (tr, example_trips)
     = (Inr example_prepared,
        (tr @ [Log (if train then MeanTraining (Some 35) else MeanValidation (Some 35))],
         example_after))"
  using example_encode
  by (simp add: prepare_features_unfold example_derive_any example_filter example_mean
      categorical_fields_def)






lemma example_sorted:
  "sort [''PUlocationID=-1'', ''DOlocationID=7'', ''PUlocationID=7'', ''DOlocationID=-2'']
     = [''DOlocationID=-2'', ''DOlocationID=7'', ''PUlocationID=-1'', ''PUlocationID=7'']"
  by code_simp

lemma example_fit:
  "dv_fit_transform \<lparr>feature_names = None\<rparr>
     [[(''PUlocationID'', VStr ''-1''), (''DOlocationID'', VStr ''7'')],
      [(''PUlocationID'', VStr ''7''), (''DOlocationID'', VStr ''-2'')]]
   = (Inr \<lparr>n_cols = 4, entries = [[(2, Some 1), (1, Some 1)], [(3, Some 1), (0, Some 1)]]\<rparr>,
      example_dv)"
  by (simp add: dv_fit_transform_def bindE_def example_sorted sample_entries_def example_dv_def)

lemma example_training:
  assumes "least_squares env = zero_fit" "decision_function env = constant_prediction"
    "root_mean_squared_error env = zero_error"
  shows "train_model env example_prepared [''PUlocationID'', ''DOlocationID''] tr
     = (Inr (example_lr, example_dv),
        tr @ [Log (ShapeXTrain 2 4), Log (NumFeatures 4), Log (MSETraining 0)])"
  using example_records
  by (simp add: train_model_def bindS_def liftE_def emit_def returnS_def categorical_fields_def
      example_fit example_target lr_fit_def lr_predict_def assms zero_fit_def
      constant_prediction_def zero_error_def example_lr_def example_dv_def numeral_eq_Suc)



lemma example_evaluation_any:
  "run_model example_env example_prepared [''PUlocationID'', ''DOlocationID'']
       (tr, example_dv, example_lr)
     = (Inr (), (tr @ [Log (MSEValidation 0)], example_dv, example_lr))"
  using example_records
  by (simp add: run_model_def bindS_def liftE_def transform_o_def predict_o_def emit_o_def
      returnS_def example_transform lr_predict_def example_params categorical_fields_def
      example_collaborators constant_prediction_def zero_error_def example_target)


lemma example_scheduler:
  "write_file example_env f = Inr ()"
  "schedule example_env = []"
  by (simp_all add: example_env_def)

lemma example_training_run:
  assumes "read_parquet env p = Inr example_trips"
    and "least_squares env = zero_fit" "decision_function env = constant_prediction"
    "root_mean_squared_error env = zero_error"
  shows "training_run env p =
     (Inr (example_lr, example_dv),
      [ReadParquet p, Log (MeanTraining (Some 35)),
       Log (ShapeXTrain 2 4), Log (NumFeatures 4), Log (MSETraining 0)])"
  by (simp add: training_run_def submit_def submit_after_def read_data_run call_with_def
      assms(1) example_run_any example_training[OF assms(2-4)])

lemma example_validation_run:
  assumes "read_parquet env p = Inr example_trips"
  shows "validation_run env p =
     (Inr example_prepared, [ReadParquet p, Log (MeanValidation (Some 35))])"
  by (simp add: validation_run_def submit_def submit_after_def read_data_run call_with_def
      assms example_run_any)


lemma persist_run_written:
  assumes "\<And>f. write_file env f = Inr ()"
  shows "persist_run env date (Inr (lr, dv), a) =
     (Inr (lr, dv),
      a @ [Dump (ModelObj lr) (''model-'' @ date @ ''.bin''),
           Dump (VectorizerObj dv) (''dv-'' @ date @ ''.b'')])"
  by (simp add: persist_run_def submit_after_def bindS_def dump_def liftE_def emit_def
      returnS_def assms)

lemma example_evaluation_run:
  "evaluation_run example_env (Inr (example_lr, example_dv)) (Inr example_prepared)
     = (Inr (), [Log (MSEValidation 0)])"
  by (simp add: evaluation_run_def submit_def call_with_def example_evaluation_any)



lemma example_main_any:
  assumes "get_paths (run_date example_env date_arg) = Inr (tp, vp)"
  shows "main example_env date_arg [] =
     (Inr (),
      [ReadParquet tp, Log (MeanTraining (Some 35)),
       Log (ShapeXTrain 2 4), Log (NumFeatures 4), Log (MSETraining 0),
       Dump (ModelObj example_lr) (''model-'' @ run_date example_env date_arg @ ''.bin''),
       Dump (VectorizerObj example_dv) (''dv-'' @ run_date example_env date_arg @ ''.b''),
       ReadParquet vp, Log (MeanValidation (Some 35)),
       Log (MSEValidation 0)])"
  by (simp add: main_by_lines assms
      example_training_run[OF example_collaborators(4,3,1,2)]
      example_validation_run[OF example_collaborators(4)]
      persist_run_written[of example_env, OF example_scheduler(1)]
      example_evaluation_run example_scheduler(2))


section \<open>What the date format accepts\<close>

lemma match_classes_sound:
  "match_classes a s = Some (t, r) \<Longrightarrow> s = t @ r \<and> list_all2 (\<lambda>c x. x \<in> set c) a t"
  by (induction a s arbitrary: t r rule: match_classes.induct)
     (auto split: if_splits option.splits)

lemma match_alts_sound:
  "match_alts as k s = Some (t, v) \<Longrightarrow>
   \<exists>a\<in>set as. \<exists>r. match_classes a s = Some (t, r) \<and> k r = Some v"
  by (induction as) (auto split: option.splits)

lemma lit_sound: "lit c k s = Some v \<Longrightarrow> \<exists>r. s = c # r \<and> k r = Some v"
  by (cases s) (auto simp: lit_def split: if_splits)

lemma lang1: "list_all2 (\<lambda>c x. x \<in> set c) [c1] t \<longleftrightarrow> (\<exists>x. t = [x] \<and> x \<in> set c1)"
  by (auto simp: list_all2_Cons1)

lemma lang2:
  "list_all2 (\<lambda>c x. x \<in> set c) [c1, c2] t \<longleftrightarrow> (\<exists>x y. t = [x, y] \<and> x \<in> set c1 \<and> y \<in> set c2)"
  by (auto simp: list_all2_Cons1)

lemma lang4:
  "list_all2 (\<lambda>c x. x \<in> set c) [c1, c2, c3, c4] t \<longleftrightarrow>
     (\<exists>x y z w. t = [x, y, z, w] \<and> x \<in> set c1 \<and> y \<in> set c2 \<and> z \<in> set c3 \<and> w \<in> set c4)"
  by (auto simp: list_all2_Cons1)

lemma year_language:
  assumes "a \<in> set year_re" "list_all2 (\<lambda>c x. x \<in> set c) a t"
  shows "length t = 4 \<and> list_all is_digit t"
proof -
  from assms(1) have a: "a = [''0123456789'', ''0123456789'', ''0123456789'', ''0123456789'']"
    by (simp add: year_re_def)
  from assms(2)[unfolded a lang4] obtain x y z w where
    "t = [x, y, z, w]" "is_digit x" "is_digit y" "is_digit z" "is_digit w"
    unfolding is_digit_def by blast
  then show ?thesis by simp
qed

lemma two_chars_in:
  assumes "list_all2 (\<lambda>c x. x \<in> set c) [c1, c2] t"
  obtains x y where "t = [x, y]" "x \<in> set c1" "y \<in> set c2"
  using assms unfolding lang2 by blast

lemma one_char_in:
  assumes "list_all2 (\<lambda>c x. x \<in> set c) [c1] t"
  obtains x where "t = [x]" "x \<in> set c1"
  using assms unfolding lang1 by blast

lemma month_language:
  assumes "a \<in> set month_re" "list_all2 (\<lambda>c x. x \<in> set c) a t"
  shows "t \<in> set month_texts"
proof -
  from assms(1) consider "a = [''1'', ''012'']" | "a = [''0'', ''123456789'']" | "a = [''123456789'']"
    by (auto simp: month_re_def)
  then show ?thesis
  proof cases
    case 1
    with assms(2) obtain x y where t: "t = [x, y]" and c: "x \<in> set ''1''" "y \<in> set ''012''"
      by (auto elim: two_chars_in)
    from c show ?thesis unfolding t by (simp; elim disjE; simp add: month_texts_def)
  next
    case 2
    with assms(2) obtain x y where t: "t = [x, y]" and c: "x \<in> set ''0''" "y \<in> set ''123456789''"
      by (auto elim: two_chars_in)
    from c show ?thesis unfolding t by (simp; elim disjE; simp add: month_texts_def)
  next
    case 3
    with assms(2) obtain x where t: "t = [x]" and c: "x \<in> set ''123456789''"
      by (auto elim: one_char_in)
    from c show ?thesis unfolding t by (simp; elim disjE; simp add: month_texts_def)
  qed
qed

lemma day_language:
  assumes "a \<in> set day_re" "list_all2 (\<lambda>c x. x \<in> set c) a t"
  shows "t \<in> set day_texts"
proof -
  from assms(1) consider "a = [''3'', ''01'']" | "a = [''12'', ''0123456789'']"
    | "a = [''0'', ''123456789'']" | "a = [''123456789'']" | "a = ['' '', ''123456789'']"
    by (auto simp: day_re_def)
  then show ?thesis
  proof cases
    case 1
    with assms(2) obtain x y where t: "t = [x, y]" and c: "x \<in> set ''3''" "y \<in> set ''01''"
      by (auto elim: two_chars_in)
    from c show ?thesis unfolding t by (simp; elim disjE; simp add: day_texts_def)
  next
    case 2
    with assms(2) obtain x y where t: "t = [x, y]" and c: "x \<in> set ''12''" "y \<in> set ''0123456789''"
      by (auto elim: two_chars_in)
    from c show ?thesis unfolding t by (simp; elim disjE; simp add: day_texts_def)
  next
    case 3
    with assms(2) obtain x y where t: "t = [x, y]" and c: "x \<in> set ''0''" "y \<in> set ''123456789''"
      by (auto elim: two_chars_in)
    from c show ?thesis unfolding t by (simp; elim disjE; simp add: day_texts_def)
  next
    case 4
    with assms(2) obtain x where t: "t = [x]" and c: "x \<in> set ''123456789''"
      by (auto elim: one_char_in)
    from c show ?thesis unfolding t by (simp; elim disjE; simp add: day_texts_def)
  next
    case 5
    with assms(2) obtain x y where t: "t = [x, y]" and c: "x \<in> set '' ''" "y \<in> set ''123456789''"
      by (auto elim: two_chars_in)
    from c show ?thesis unfolding t by (simp; elim disjE; simp add: day_texts_def)
  qed
qed

lemma month_texts_val: "t \<in> set month_texts \<Longrightarrow> py_int t = Some (field_val t)"
  unfolding month_texts_def
  by (simp; elim disjE;
      simp add: py_int_def strip_def py_isspace_def is_digit_def field_val_def)

lemma day_texts_val: "t \<in> set day_texts \<Longrightarrow> py_int t = Some (field_val t)"
  unfolding day_texts_def
  by (simp; elim disjE;
      simp add: py_int_def strip_def py_isspace_def is_digit_def field_val_def)

lemma match_format_sound:
  assumes "match_format s = Some (ys, ms, ds, rest)"
  shows "s = ys @ ''-'' @ ms @ ''-'' @ ds @ rest \<and> length ys = 4 \<and> list_all is_digit ys
    \<and> ms \<in> set month_texts \<and> ds \<in> set day_texts"
proof -
  from match_alts_sound[OF assms[unfolded match_format_def]] obtain a1 r1 where
    a1: "a1 \<in> set year_re" and c1: "match_classes a1 s = Some (ys, r1)"
    and k1: "lit (CHR ''-'') (match_alts month_re (lit (CHR ''-'') (match_alts day_re Some))) r1
      = Some (ms, ds, rest)" by blast
  from lit_sound[OF k1] obtain r2 where r1: "r1 = CHR ''-'' # r2"
    and k2: "match_alts month_re (lit (CHR ''-'') (match_alts day_re Some)) r2 = Some (ms, ds, rest)"
    by blast
  from match_alts_sound[OF k2] obtain a2 r3 where
    a2: "a2 \<in> set month_re" and c2: "match_classes a2 r2 = Some (ms, r3)"
    and k3: "lit (CHR ''-'') (match_alts day_re Some) r3 = Some (ds, rest)" by blast
  from lit_sound[OF k3] obtain r4 where r3: "r3 = CHR ''-'' # r4"
    and k4: "match_alts day_re Some r4 = Some (ds, rest)" by blast
  from match_alts_sound[OF k4] obtain a3 where
    a3: "a3 \<in> set day_re" and c3: "match_classes a3 r4 = Some (ds, rest)" by auto
  from match_classes_sound[OF c1] match_classes_sound[OF c2] match_classes_sound[OF c3] r1 r3
  have "s = ys @ ''-'' @ ms @ ''-'' @ ds @ rest" by simp
  moreover from match_classes_sound[OF c1] a1 have "length ys = 4 \<and> list_all is_digit ys"
    by (auto dest: year_language)
  moreover from match_classes_sound[OF c2] a2 have "ms \<in> set month_texts"
    by (auto dest: month_language)
  moreover from match_classes_sound[OF c3] a3 have "ds \<in> set day_texts"
    by (auto dest: day_language)
  ultimately show ?thesis by blast
qed

lemma py_int_year:
  assumes "length ys = 4" "list_all is_digit ys"
  shows "py_int ys = Some (dec_val ys)"
proof -
  from assms(1) obtain a b c d where ys: "ys = [a, b, c, d]"
    by (auto simp: numeral_eq_Suc length_Suc_conv)
  with assms(2) show ?thesis by (simp add: py_int_digits4)
qed

lemma strptime_error: "strptime s = Inl e \<Longrightarrow> e = ValueError"
  by (auto simp: strptime_def mk_date_def split: option.splits prod.splits if_splits)

lemma strptime_accepted:
  assumes "strptime s = Inr d"
  shows "accepted_date s"
proof -
  from assms obtain ys ms ds y m dd where mf: "match_format s = Some (ys, ms, ds, [])"
    and v: "py_int ys = Some y" "py_int ms = Some m" "py_int ds = Some dd"
    and mk: "mk_date y m dd = Inr d"
    by (auto simp: strptime_def split: option.splits prod.splits if_splits)
  from match_format_sound[OF mf] have s: "s = ys @ ''-'' @ ms @ ''-'' @ ds"
    and ys: "length ys = 4" "list_all is_digit ys"
    and ms: "ms \<in> set month_texts" and ds: "ds \<in> set day_texts" by simp_all
  from v py_int_year[OF ys] month_texts_val[OF ms] day_texts_val[OF ds]
  have vals: "y = dec_val ys" "m = field_val ms" "dd = field_val ds" by simp_all
  from mk have rng: "1 \<le> y" "dd \<le> days_in_month y m"
    by (auto simp: mk_date_def split: if_splits)
  have t: "take 4 s = ys" "drop 4 s = ''-'' @ ms @ ''-'' @ ds"
    using ys(1) by (simp_all add: s)
  show ?thesis
    unfolding accepted_date_def t
    using ms ds ys rng vals by blast
qed

lemma get_paths_rejects:
  assumes "\<not> accepted_date s"
  shows "get_paths s = Inl ValueError"
proof (cases "strptime s")
  case (Inl e)
  with strptime_error[OF Inl] show ?thesis by (simp add: get_paths_def bindE_def)
next
  case (Inr d)
  with strptime_accepted[OF Inr] assms show ?thesis by simp
qed

lemma not_accepted_13: "\<not> accepted_date ''2022-13-01''"
  by (simp add: accepted_date_def month_texts_def day_texts_def)

lemma not_well_formed_short: "\<not> well_formed_date ''2022-1-5''"
  by (simp add: well_formed_date_def)

lemma short_paths:
  "get_paths ''2022-1-5''
     = Inr (''./data/fhv_tripdata_2021-11.parquet'', ''./data/fhv_tripdata_2021-12.parquet'')"
  by (simp add: get_paths_def strptime_def match_format_def year_re_def month_re_def day_re_def
      lit_def py_int_def strip_def py_isspace_def is_digit_def dec_val_def digit_val_def
      mk_date_def days_in_month_def add_months_def bindE_def dataset_path_def str_int_def
      fmt_02d_def str_nat.simps digit_char_def isleap_def)

section \<open>The order of the stages and the artifacts\<close>

lemma failing_dump_main:
  "main failing_dump_env None [] =
     (Inl IOError,
      [ReadParquet ''./data/fhv_tripdata_2021-11.parquet'', Log (MeanTraining (Some 35)),
       ReadParquet ''./data/fhv_tripdata_2021-12.parquet'',
       Log (ShapeXTrain 2 4), Log (NumFeatures 4), Log (MSETraining 0),
       Dump (ModelObj example_lr) ''model-2022-01-15.bin'',
       Log (MeanValidation (Some 35))])"
proof -
  have c: "read_parquet failing_dump_env p = Inr example_trips"
    "least_squares failing_dump_env = zero_fit"
    "decision_function failing_dump_env = constant_prediction"
    "root_mean_squared_error failing_dump_env = zero_error"
    "schedule failing_dump_env = [True, True, False]" for p
    by (simp_all add: failing_dump_env_def)
  have d: "run_date failing_dump_env None = ''2022-01-15''"
    by (simp add: run_date_def failing_dump_env_def)
  have w: "persist_run failing_dump_env ''2022-01-15'' (Inr (lr, dv), a) =
      (Inl IOError, a @ [Dump (ModelObj lr) ''model-2022-01-15.bin''])" for lr dv a
    by (simp add: persist_run_def submit_after_def bindS_def dump_def liftE_def emit_def
        returnS_def failing_dump_env_def)
  show ?thesis
    by (simp add: main_by_lines d example_paths example_training_run[OF c(1-4)]
        example_validation_run[OF c(1)] w c(5) evaluation_run_def)
qed




section \<open>A date the format rejects\<close>

text \<open>
  Claim C8, as the code has it. For every reference date that the format
  \<^verbatim>\<open>%Y-%m-%d\<close> does not accept (a four-digit year, a month and a day of the calendar, the
  leading zero of month and day optional, the day also with a leading space), given as
  argument or taken from the clock, the run fails with the \<^verbatim>\<open>ValueError\<close> of the Path
  Resolver before any data access: no dataset file is read and no artifact is written.
\<close>

theorem main_rejects_malformed_date:
  assumes "\<not> accepted_date (run_date env date_arg)"
  shows "main env date_arg [] = (Inl ValueError, [])
    \<and> reads (snd (main env date_arg [])) = []
    \<and> artifacts (snd (main env date_arg [])) = []"
  using get_paths_rejects[OF assms]
  by (simp add: main_by_lines reads_def artifacts_def)

text \<open>A thirteenth month stops the run at once.\<close>

theorem main_rejects_malformed_date_witness:
  "\<not> accepted_date (run_date example_env (Some ''2022-13-01''))
   \<and> main example_env (Some ''2022-13-01'') [] = (Inl ValueError, [])"
proof -
  have n: "\<not> accepted_date (run_date example_env (Some ''2022-13-01''))"
    by (simp add: run_date_def not_accepted_13)
  from main_rejects_malformed_date[OF n] n show ?thesis by simp
qed

text \<open>
  Claim C8 as stated fails for a date written without the leading zeros: it is not of the
  shape \<^verbatim>\<open>YYYY-MM-DD\<close>, the format accepts it all the same, and the run reads both
  datasets and completes.
\<close>

theorem main_short_date_counterexample:
  "\<not> well_formed_date ''2022-1-5''
   \<and> fst (main example_env (Some ''2022-1-5'') []) = Inr ()
   \<and> reads (snd (main example_env (Some ''2022-1-5'') []))
       = [''./data/fhv_tripdata_2021-11.parquet'', ''./data/fhv_tripdata_2021-12.parquet'']"
proof -
  have p: "get_paths (run_date example_env (Some ''2022-1-5''))
      = Inr (''./data/fhv_tripdata_2021-11.parquet'', ''./data/fhv_tripdata_2021-12.parquet'')"
    by (simp add: run_date_def short_paths)
  show ?thesis
    by (simp add: example_main_any[OF p] not_well_formed_short reads_def)
qed

end
